theory Spec2Isabelle
  imports Main "HOL-Library.Word" "HOL-Library.AList"
begin

unbundle bit_operations_syntax

section \<open>Wire messages (package lnwire)\<close>

text \<open>
  The three message types of \<^verbatim>\<open>lnwire\<close> and their \<^verbatim>\<open>Encode\<close>, \<^verbatim>\<open>Decode\<close>,
  \<^verbatim>\<open>MaxPayloadLength\<close> and \<^verbatim>\<open>String\<close> methods. An \<^verbatim>\<open>io.Writer\<close> is the list of
  bytes written to an in-memory buffer (its writes do not fail), an \<^verbatim>\<open>io.Reader\<close> the
  list of bytes still to be read. A Go pointer that may be nil is an \<open>option\<close>.
\<close>

type_synonym byte = "8 word"

text \<open>\<^verbatim>\<open>btcec.Signature\<close>: the two \<^verbatim>\<open>*big.Int\<close> fields of the library's struct.\<close>

record Signature =
  R :: "int option"
  S :: "int option"

text \<open>\<^verbatim>\<open>wire.ShaHash\<close> is \<^verbatim>\<open>[32]byte\<close>: a list of bytes of length 32.\<close>

type_synonym ShaHash = "byte list"

definition HashSize :: nat where
  "HashSize = 32"

text \<open>The invariant of the array type, for a \<^verbatim>\<open>*wire.ShaHash\<close> that may be nil.\<close>

definition ShaHash_ok :: "ShaHash option \<Rightarrow> bool" where
  "ShaHash_ok e = (case e of None \<Rightarrow> True | Some h \<Rightarrow> length h = HashSize)"

record HTLCAddReject =
  ChannelID :: "64 word"
  HTLCKey :: "64 word"

record HTLCAddAccept =
  ChannelID :: "64 word"
  HTLCKey :: "64 word"

record CloseComplete =
  ReservationID :: "64 word"
  ResponderCloseSig :: "Signature option"
  CloseShaHash :: "ShaHash option"

datatype codec_error = ErrUnexpectedEOF | ErrSignatureTooLong | ErrMalformedSignature

subsection \<open>The element codec\<close>

text \<open>
  Modelled from the spec: \<^verbatim>\<open>writeElements\<close> and \<^verbatim>\<open>readElements\<close> (file
  \<^verbatim>\<open>lnwire.go\<close>) are called by every \<^verbatim>\<open>Encode\<close> and \<^verbatim>\<open>Decode\<close> and are not among
  the sources. Section 4.1 of the spec gives their contract: each element is written or
  read in order, the first error aborts the rest; integers and the small identifiers
  (ChannelID, HTLCKey, ReservationID) have a fixed width of 8 bytes in one fixed
  endianness (big-endian here); a hash is a fixed array of 32 bytes; a signature is a
  blob with a length byte in front and a declared maximum, and a declared length above
  the maximum is a hard decode failure. Sections 3 and 4.2: a nil signature or hash is
  written as a defined empty representation (empty blob, all-zero array).

  The maximum of the signature element is 73 bytes on the wire, its length byte
  included: the layout comments of \<^verbatim>\<open>CloseComplete.Decode\<close> and
  \<^verbatim>\<open>MaxPayloadLength\<close> count ``ResponderCloseSig (73), first byte length then sig''
  and 8 + 73 + 32 = 113, the spec's total for the message.
\<close>

definition MaxSigElementLen :: nat where
  "MaxSigElementLen = 73"

text \<open>
  Modelled from the spec: the \<open>n\<close> low bytes of a fixed-width integer, most significant
  first (\<open>putBE\<close>), and the integer that a sequence of bytes stands for (\<open>getBE\<close>).
\<close>

fun putBE :: "nat \<Rightarrow> 64 word \<Rightarrow> byte list" where
  "putBE 0 v = []"
| "putBE (Suc n) v = putBE n (drop_bit 8 v) @ [ucast v]"

definition getBE :: "byte list \<Rightarrow> 64 word" where
  "getBE bs = foldl (\<lambda>acc b. push_bit 8 acc OR ucast b) 0 bs"

text \<open>Modelled from the spec: reading exactly \<open>n\<close> bytes; a short input is an error.\<close>

definition readFull :: "nat \<Rightarrow> byte list \<Rightarrow> codec_error + (byte list \<times> byte list)" where
  "readFull n r = (if length r < n then Inl ErrUnexpectedEOF else Inr (take n r, drop n r))"

text \<open>Modelled from the spec: \<^verbatim>\<open>writeElement\<close> at a \<^verbatim>\<open>uint64\<close> (and \<^verbatim>\<open>HTLCKey\<close>).\<close>

definition writeElement_uint64 :: "64 word \<Rightarrow> codec_error + byte list" where
  "writeElement_uint64 v = Inr (putBE 8 v)"

text \<open>
  Modelled from the spec: \<^verbatim>\<open>writeElement\<close> at a \<^verbatim>\<open>*btcec.Signature\<close>. The first
  argument is the library's \<^verbatim>\<open>Signature.Serialize\<close>.
\<close>

definition writeElement_sig ::
  "(Signature \<Rightarrow> byte list) \<Rightarrow> Signature option \<Rightarrow> codec_error + byte list" where
  "writeElement_sig serialize e =
     (case e of
        None \<Rightarrow> Inr [0]
      | Some sg \<Rightarrow>
          (let sig = serialize sg in
           if 1 + length sig > MaxSigElementLen then Inl ErrSignatureTooLong
           else Inr (of_nat (length sig) # sig)))"

text \<open>Modelled from the spec: \<^verbatim>\<open>writeElement\<close> at a \<^verbatim>\<open>*wire.ShaHash\<close>.\<close>

definition writeElement_sha :: "ShaHash option \<Rightarrow> codec_error + byte list" where
  "writeElement_sha e = (case e of None \<Rightarrow> Inr (replicate HashSize 0) | Some h \<Rightarrow> Inr h)"

text \<open>
  Modelled from the spec: \<^verbatim>\<open>writeElements\<close>, over the results of writing each
  element: the outputs in order, or the first error.
\<close>

fun writeElements :: "(codec_error + byte list) list \<Rightarrow> codec_error + byte list" where
  "writeElements [] = Inr []"
| "writeElements (Inl err # es) = Inl err"
| "writeElements (Inr bs # es) =
     (case writeElements es of Inl err \<Rightarrow> Inl err | Inr rest \<Rightarrow> Inr (bs @ rest))"

text \<open>Modelled from the spec: \<^verbatim>\<open>readElement\<close> at a \<^verbatim>\<open>*uint64\<close> (and \<^verbatim>\<open>*HTLCKey\<close>).\<close>

definition readElement_uint64 :: "byte list \<Rightarrow> codec_error + (64 word \<times> byte list)" where
  "readElement_uint64 r =
     (case readFull 8 r of Inl err \<Rightarrow> Inl err | Inr (bs, r') \<Rightarrow> Inr (getBE bs, r'))"

text \<open>
  Modelled from the spec: \<^verbatim>\<open>readElement\<close> at a \<^verbatim>\<open>**btcec.Signature\<close>. The first
  argument is the library's \<^verbatim>\<open>ParseSignature\<close>. The declared length is checked before
  the blob is read.
\<close>

definition readElement_sig ::
  "(byte list \<Rightarrow> Signature option) \<Rightarrow> byte list \<Rightarrow> codec_error + (Signature option \<times> byte list)" where
  "readElement_sig parse r =
     (case readFull 1 r of
        Inl err \<Rightarrow> Inl err
      | Inr (lb, r1) \<Rightarrow>
          (let sigLength = unat (hd lb) in
           if 1 + sigLength > MaxSigElementLen then Inl ErrSignatureTooLong
           else (case readFull sigLength r1 of
                   Inl err \<Rightarrow> Inl err
                 | Inr (sig, r2) \<Rightarrow>
                     (case parse sig of
                        None \<Rightarrow> Inl ErrMalformedSignature
                      | Some sg \<Rightarrow> Inr (Some sg, r2)))))"

text \<open>Modelled from the spec: \<^verbatim>\<open>readElement\<close> at a \<^verbatim>\<open>**wire.ShaHash\<close>.\<close>

definition readElement_sha :: "byte list \<Rightarrow> codec_error + (ShaHash option \<times> byte list)" where
  "readElement_sha r =
     (case readFull HashSize r of Inl err \<Rightarrow> Inl err | Inr (h, r') \<Rightarrow> Inr (Some h, r'))"

subsection \<open>HTLCAddReject\<close>

definition HTLCAddReject_Encode :: "HTLCAddReject \<Rightarrow> 32 word \<Rightarrow> codec_error + byte list" where
  "HTLCAddReject_Encode c pver =
     writeElements
       [writeElement_uint64 (HTLCAddReject.ChannelID c),
        writeElement_uint64 (HTLCAddReject.HTLCKey c)]"

definition HTLCAddReject_Decode ::
  "HTLCAddReject \<Rightarrow> byte list \<Rightarrow> 32 word \<Rightarrow> codec_error + (HTLCAddReject \<times> byte list)" where
  "HTLCAddReject_Decode c r pver =
     (case readElement_uint64 r of
        Inl err \<Rightarrow> Inl err
      | Inr (chanID, r1) \<Rightarrow>
          (case readElement_uint64 r1 of
             Inl err \<Rightarrow> Inl err
           | Inr (key, r2) \<Rightarrow>
               Inr (c\<lparr>HTLCAddReject.ChannelID := chanID, HTLCAddReject.HTLCKey := key\<rparr>, r2)))"

definition HTLCAddReject_MaxPayloadLength :: "32 word \<Rightarrow> 32 word" where
  "HTLCAddReject_MaxPayloadLength pver = 16"

subsection \<open>HTLCAddAccept\<close>

definition HTLCAddAccept_Encode :: "HTLCAddAccept \<Rightarrow> 32 word \<Rightarrow> codec_error + byte list" where
  "HTLCAddAccept_Encode c pver =
     writeElements
       [writeElement_uint64 (HTLCAddAccept.ChannelID c),
        writeElement_uint64 (HTLCAddAccept.HTLCKey c)]"

definition HTLCAddAccept_Decode ::
  "HTLCAddAccept \<Rightarrow> byte list \<Rightarrow> 32 word \<Rightarrow> codec_error + (HTLCAddAccept \<times> byte list)" where
  "HTLCAddAccept_Decode c r pver =
     (case readElement_uint64 r of
        Inl err \<Rightarrow> Inl err
      | Inr (chanID, r1) \<Rightarrow>
          (case readElement_uint64 r1 of
             Inl err \<Rightarrow> Inl err
           | Inr (key, r2) \<Rightarrow>
               Inr (c\<lparr>HTLCAddAccept.ChannelID := chanID, HTLCAddAccept.HTLCKey := key\<rparr>, r2)))"

definition HTLCAddAccept_MaxPayloadLength :: "32 word \<Rightarrow> 32 word" where
  "HTLCAddAccept_MaxPayloadLength pver = 16"

subsection \<open>CloseComplete\<close>

definition CloseComplete_Encode ::
  "(Signature \<Rightarrow> byte list) \<Rightarrow> CloseComplete \<Rightarrow> 32 word \<Rightarrow> codec_error + byte list" where
  "CloseComplete_Encode serialize c pver =
     writeElements
       [writeElement_uint64 (ReservationID c),
        writeElement_sig serialize (ResponderCloseSig c),
        writeElement_sha (CloseShaHash c)]"

definition CloseComplete_Decode ::
  "(byte list \<Rightarrow> Signature option) \<Rightarrow> CloseComplete \<Rightarrow> byte list \<Rightarrow> 32 word
     \<Rightarrow> codec_error + (CloseComplete \<times> byte list)" where
  "CloseComplete_Decode parse c r pver =
     (case readElement_uint64 r of
        Inl err \<Rightarrow> Inl err
      | Inr (resID, r1) \<Rightarrow>
          (case readElement_sig parse r1 of
             Inl err \<Rightarrow> Inl err
           | Inr (sg, r2) \<Rightarrow>
               (case readElement_sha r2 of
                  Inl err \<Rightarrow> Inl err
                | Inr (h, r3) \<Rightarrow>
                    Inr (c\<lparr>ReservationID := resID, ResponderCloseSig := sg,
                            CloseShaHash := h\<rparr>, r3))))"

definition CloseComplete_MaxPayloadLength :: "32 word \<Rightarrow> 32 word" where
  "CloseComplete_MaxPayloadLength pver = 113"

text \<open>
  The verbs of \<^verbatim>\<open>fmt.Sprintf\<close> that \<^verbatim>\<open>String\<close> uses: \<^verbatim>\<open>%d\<close> of an unsigned
  integer (decimal digits), \<^verbatim>\<open>%x\<close> of a byte slice (two lower-case hexadecimal
  digits per byte, nothing for a nil or empty slice) and \<^verbatim>\<open>%s\<close> of a string.
\<close>

definition digit_char :: "nat \<Rightarrow> char" where
  "digit_char d = ''0123456789abcdef'' ! d"

function fmt_d :: "nat \<Rightarrow> string" where
  "fmt_d n = (if n < 10 then [digit_char n] else fmt_d (n div 10) @ [digit_char (n mod 10)])"
  by pat_completeness auto
termination
  by (relation "measure id") auto

declare fmt_d.simps [simp del]

definition fmt_x :: "byte list \<Rightarrow> string" where
  "fmt_x bs = concat (map (\<lambda>b. [digit_char (unat b div 16), digit_char (unat b mod 16)]) bs)"

text \<open>
  \<^verbatim>\<open>CloseComplete.String\<close>. The arguments are the library's \<^verbatim>\<open>Signature.Serialize\<close>
  and \<^verbatim>\<open>ShaHash.String\<close>. \<^verbatim>\<open>serializedSig\<close> and \<^verbatim>\<open>shaString\<close> start as the nil
  slice and the empty string.
\<close>

definition CloseComplete_String ::
  "(Signature \<Rightarrow> byte list) \<Rightarrow> (ShaHash \<Rightarrow> string) \<Rightarrow> CloseComplete \<Rightarrow> string" where
  "CloseComplete_String serialize shaStr c =
     (let serializedSig =
            (case ResponderCloseSig c of
               None \<Rightarrow> []
             | Some sg \<Rightarrow> (case R sg of None \<Rightarrow> [] | Some r \<Rightarrow> serialize sg));
          shaString = (case CloseShaHash c of None \<Rightarrow> [] | Some h \<Rightarrow> shaStr h)
      in (''\<newline>--- Begin CloseComplete ---\<newline>'') @
         (''ReservationID:'' @ [CHR 0x09, CHR 0x09] @ fmt_d (unat (ReservationID c)) @ ''\<newline>'') @
         (''ResponderCloseSig:'' @ [CHR 0x09] @ fmt_x serializedSig @ ''\<newline>'') @
         (''CloseShaHash:'' @ [CHR 0x09, CHR 0x09] @ shaString @ ''\<newline>'') @
         (''--- End CloseComplete ---\<newline>''))"

section \<open>The server (package main)\<close>

text \<open>
  The state of \<^verbatim>\<open>server\<close> and the bodies of its methods, one call or one pass of a
  worker's loop at a time. The state is passed explicitly. A Go \<^verbatim>\<open>error\<close> is its
  message, and \<open>None\<close> is the nil error. Pointers to messages and addresses are taken
  non-nil; a \<^verbatim>\<open>*peer\<close> travelling on a channel may be nil, since \<^verbatim>\<open>addPeer\<close> tests it.
  Of the accept loop \<^verbatim>\<open>listener\<close> only its launch by \<^verbatim>\<open>Start\<close> is recorded.
\<close>

type_synonym error = string

text \<open>
  \<^verbatim>\<open>lndc.LNAdr\<close>, by what the server reads of it: the public key (nil, or its
  compressed serialisation), the script address of \<^verbatim>\<open>Base58Addr\<close>, and the renderings
  of \<^verbatim>\<open>NetAddr\<close> and of the address itself.
\<close>

record LNAdr =
  PubKey :: "byte list option"
  Base58Addr :: "byte list"
  NetAddr :: string
  LNAdr_String :: string

text \<open>
  An \<^verbatim>\<open>lndc\<close> connection: as \<^verbatim>\<open>lndc.NewConn(nil)\<close> makes it, or as a successful
  \<^verbatim>\<open>Dial\<close> to an address and a remote identity leaves it.
\<close>

datatype LNDConn = NewConn | Dialed string "byte list"

record peer =
  peerID :: "32 word"
  lightningAddr :: LNAdr
  conn :: LNDConn

text \<open>
  A \<^verbatim>\<open>net.Listener\<close>: its address, what its \<^verbatim>\<open>Close\<close> returns, and how often
  \<^verbatim>\<open>Close\<close> has been called on it.
\<close>

record listener =
  lnAddr :: string
  closeResult :: "error option"
  closeCalls :: nat

text \<open>
  The reply channel of one request, \<^verbatim>\<open>make(chan error, 1)\<close>: its buffer, and the value
  that the single receive of \<^verbatim>\<open>ConnectToPeer\<close> has taken (\<open>None\<close> while it still
  waits).
\<close>

record reply_chan =
  rbuf :: "error option list"
  got :: "error option option"

record connectPeerMsg =
  addr :: LNAdr
  reply :: nat

datatype 'q query = ConnectPeerMsg connectPeerMsg | OtherQuery 'q

datatype goroutine = GoListener string | GoPeerManager | GoQueryHandler | GoDial connectPeerMsg

text \<open>
  The fields of \<^verbatim>\<open>server\<close>. The two collaborators are held by the number of calls of
  their \<^verbatim>\<open>Stop\<close>, the buffered channels by their contents, \<^verbatim>\<open>quit\<close> by whether it
  is closed, the \<^verbatim>\<open>WaitGroup\<close> by its counter. The peer map is an association list; its
  order stands for the order in which \<^verbatim>\<open>range\<close> visits the map. \<^verbatim>\<open>queries\<close> is
  unbuffered and holds nothing. Four more fields record effects outside the struct: the
  goroutines launched, the peers whose \<^verbatim>\<open>Stop\<close> was called, the reply channels made
  so far, and the number of the next one.
\<close>

record server =
  started :: "32 word"
  shutdown :: "32 word"
  longTermPriv :: "byte list"
  listeners :: "listener list"
  peers :: "(32 word \<times> peer) list"
  rpcServer_stops :: nat
  lnwallet_stops :: nat
  newPeers :: "peer option list"
  donePeers :: "peer option list"
  wg :: int
  quit :: bool
  goroutines :: "goroutine list"
  peer_stops :: "peer list"
  replies :: "nat \<Rightarrow> reply_chan"
  next_reply :: nat

text \<open>
  What a call or a pass of a loop ends in: the worker goes round its loop again, it has
  left the loop and returned, it is blocked in a channel send, or it has panicked.
\<close>

datatype 'a ctl = Next 'a | Exit 'a | Blocked 'a | Panicked string

text \<open>\<^verbatim>\<open>s.wg.Done()\<close>: a counter that would fall below zero is a run-time panic.\<close>

definition wg_Done :: "server \<Rightarrow> server ctl" where
  "wg_Done s =
     (if wg s - 1 < 0 then Panicked ''sync: negative WaitGroup counter''
      else Exit (s\<lparr>wg := wg s - 1\<rparr>))"

datatype 'a go_result = Return 'a | Panic string

subsection \<open>newServer\<close>

text \<open>
  The arguments are the results of the calls \<^verbatim>\<open>newServer\<close> makes:
  \<^verbatim>\<open>getIdentityPrivKey(wallet)\<close>, and \<^verbatim>\<open>lndc.NewListener\<close> for each address.
\<close>

fun newListeners :: "(error + listener) list \<Rightarrow> error + listener list" where
  "newListeners [] = Inr []"
| "newListeners (Inl err # rest) = Inl err"
| "newListeners (Inr l # rest) =
     (case newListeners rest of Inl err \<Rightarrow> Inl err | Inr ls \<Rightarrow> Inr (l # ls))"

definition newServer :: "error + byte list \<Rightarrow> (error + listener) list \<Rightarrow> error + server" where
  "newServer idKey made =
     (case idKey of
        Inl err \<Rightarrow> Inl err
      | Inr privKey \<Rightarrow>
          (case newListeners made of
             Inl err \<Rightarrow> Inl err
           | Inr ls \<Rightarrow>
               Inr \<lparr>started = 0, shutdown = 0, longTermPriv = privKey, listeners = ls,
                    peers = [], rpcServer_stops = 0, lnwallet_stops = 0, newPeers = [],
                    donePeers = [], wg = 0, quit = False, goroutines = [], peer_stops = [],
                    replies = (\<lambda>n. \<lparr>rbuf = [], got = None\<rparr>), next_reply = 0\<rparr>))"

subsection \<open>The peer set and its mutator\<close>

definition addPeer :: "server \<Rightarrow> peer option \<Rightarrow> server" where
  "addPeer s p' =
     (case p' of
        None \<Rightarrow> s
      | Some p \<Rightarrow>
          if shutdown s \<noteq> 0 then s\<lparr>peer_stops := peer_stops s @ [p]\<rparr>
          else s\<lparr>peers := AList.update (peerID p) p (peers s)\<rparr>)"

definition removePeer :: "server \<Rightarrow> peer option \<Rightarrow> server" where
  "removePeer s p' = s"

text \<open>
  One pass through the \<^verbatim>\<open>select\<close> of \<^verbatim>\<open>peerManager\<close>, by the case that fires;
  \<open>None\<close> when that case cannot fire (its channel is empty, or \<^verbatim>\<open>quit\<close> is open).
  After the loop, \<^verbatim>\<open>s.wg.Done()\<close>.
\<close>

datatype pm_case = RecvNewPeers | RecvDonePeers | RecvQuit

fun peerManager :: "pm_case \<Rightarrow> server \<Rightarrow> server ctl option" where
  "peerManager RecvNewPeers s =
     (case newPeers s of
        [] \<Rightarrow> None
      | p # rest \<Rightarrow> Some (Next (addPeer (s\<lparr>newPeers := rest\<rparr>) p)))"
| "peerManager RecvDonePeers s =
     (case donePeers s of
        [] \<Rightarrow> None
      | p # rest \<Rightarrow> Some (Next (removePeer (s\<lparr>donePeers := rest\<rparr>) p)))"
| "peerManager RecvQuit s = (if quit s then Some (wg_Done s) else None)"

text \<open>
  \<^verbatim>\<open>AddPeer\<close>: a send on \<^verbatim>\<open>newPeers\<close>, made with capacity 100; with the buffer
  full the sender is blocked until the mutator takes a peer.
\<close>

definition send_newPeers :: "peer option \<Rightarrow> server \<Rightarrow> server option" where
  "send_newPeers p s =
     (if length (newPeers s) < 100 then Some (s\<lparr>newPeers := newPeers s @ [p]\<rparr>) else None)"

definition AddPeer :: "server \<Rightarrow> peer option \<Rightarrow> server ctl" where
  "AddPeer s p = (case send_newPeers p s of None \<Rightarrow> Blocked s | Some s' \<Rightarrow> Exit s')"

subsection \<open>The reply channel\<close>

text \<open>
  \<^verbatim>\<open>ConnectToPeer\<close> receives from its reply channel exactly once, and waits in that
  receive from the moment its query is handed over. \<open>recv_reply\<close> is that receive, taken
  as soon as the buffer holds a value. A send finds room in the buffer of capacity 1
  after the requester has taken what it can; when it does not, the requester has
  returned, nothing will ever drain the buffer, and the sender is blocked for ever
  (\<open>None\<close>).
\<close>

definition recv_reply :: "reply_chan \<Rightarrow> reply_chan" where
  "recv_reply c =
     (case got c of
        Some v \<Rightarrow> c
      | None \<Rightarrow> (case rbuf c of [] \<Rightarrow> c | v # rest \<Rightarrow> c\<lparr>rbuf := rest, got := Some v\<rparr>))"

definition send_reply :: "error option \<Rightarrow> reply_chan \<Rightarrow> reply_chan option" where
  "send_reply v c =
     (let c' = recv_reply c in
      if length (rbuf c') < 1 then Some (recv_reply (c'\<lparr>rbuf := rbuf c' @ [v]\<rparr>)) else None)"

text \<open>\<^verbatim>\<open>msg.reply <- v\<close> in a worker of the server.\<close>

definition reply_to :: "connectPeerMsg \<Rightarrow> error option \<Rightarrow> server \<Rightarrow> server option" where
  "reply_to msg v s =
     (case send_reply v (replies s (reply msg)) of
        None \<Rightarrow> None
      | Some c \<Rightarrow> Some (s\<lparr>replies := (replies s)(reply msg := c)\<rparr>))"

subsection \<open>The query processor and the dial task\<close>

definition errAlreadyConnected :: "peer \<Rightarrow> error" where
  "errAlreadyConnected p = ''already connected to peer: '' @ LNAdr_String (lightningAddr p)"

text \<open>
  The loop over \<^verbatim>\<open>s.peers\<close> in \<^verbatim>\<open>queryHandler\<close>: one send on the reply channel for
  every peer whose address renders as the target does.
\<close>

fun scanPeers :: "connectPeerMsg \<Rightarrow> peer list \<Rightarrow> server \<Rightarrow> server ctl" where
  "scanPeers msg [] s = Next s"
| "scanPeers msg (p # ps) s =
     (if LNAdr_String (lightningAddr p) = LNAdr_String (addr msg)
      then (case reply_to msg (Some (errAlreadyConnected p)) s of
              None \<Rightarrow> Blocked s
            | Some s' \<Rightarrow> scanPeers msg ps s')
      else scanPeers msg ps s)"

text \<open>
  One pass through the \<^verbatim>\<open>select\<close> of \<^verbatim>\<open>queryHandler\<close>. A query is handed over by
  its sender (\<^verbatim>\<open>queries\<close> is unbuffered); the type switch has one case and no
  default. After the loop, \<^verbatim>\<open>s.wg.Done()\<close>.
\<close>

datatype 'q qh_case = RecvQuery "'q query" | RecvQuitQ

fun queryHandler :: "'q qh_case \<Rightarrow> server \<Rightarrow> server ctl option" where
  "queryHandler (RecvQuery (ConnectPeerMsg msg)) s =
     Some (case scanPeers msg (map snd (peers s)) s of
             Next s' \<Rightarrow> Next (s'\<lparr>goroutines := goroutines s' @ [GoDial msg]\<rparr>)
           | Exit s' \<Rightarrow> Exit s'
           | Blocked s' \<Rightarrow> Blocked s'
           | Panicked m \<Rightarrow> Panicked m)"
| "queryHandler (RecvQuery (OtherQuery q)) s = Some (Next s)"
| "queryHandler RecvQuitQ s = (if quit s then Some (wg_Done s) else None)"

text \<open>
  The goroutine that \<^verbatim>\<open>queryHandler\<close> launches for a connect query. Its arguments are
  the outcome of \<^verbatim>\<open>conn.Dial\<close> (of the \<^verbatim>\<open>lndc\<close> transport), as a function of the
  private key, the address and the remote identity, and \<^verbatim>\<open>newPeer\<close> (of
  \<^verbatim>\<open>peer.go\<close>), as a function of the connection.
\<close>

definition dialTask ::
  "(byte list \<Rightarrow> string \<Rightarrow> byte list \<Rightarrow> error option) \<Rightarrow> (LNDConn \<Rightarrow> peer)
     \<Rightarrow> connectPeerMsg \<Rightarrow> server \<Rightarrow> server ctl" where
  "dialTask Dial newPeer msg s =
     (let remoteID = (case PubKey (addr msg) of
                        None \<Rightarrow> Base58Addr (addr msg)
                      | Some key \<Rightarrow> key);
          ipAddr = NetAddr (addr msg);
          err = Dial (longTermPriv s) ipAddr remoteID;
          c = (case err of None \<Rightarrow> Dialed ipAddr remoteID | Some e \<Rightarrow> NewConn)
      in case (case err of None \<Rightarrow> Some s | Some e \<Rightarrow> reply_to msg (Some e) s) of
           None \<Rightarrow> Blocked s
         | Some s1 \<Rightarrow>
             (case send_newPeers (Some (newPeer c)) s1 of
                None \<Rightarrow> Blocked s1
              | Some s2 \<Rightarrow>
                  (case reply_to msg None s2 of
                     None \<Rightarrow> Blocked s2
                   | Some s3 \<Rightarrow> Exit s3)))"

subsection \<open>ConnectToPeer\<close>

text \<open>
  \<^verbatim>\<open>ConnectToPeer\<close> makes the reply channel and hands the query to \<^verbatim>\<open>queryHandler\<close>
  (\<open>ConnectToPeer_query\<close>); what it returns is what its receive has taken
  (\<open>ConnectToPeer_returns\<close>, \<open>None\<close> while it is blocked).
\<close>

definition ConnectToPeer_query :: "server \<Rightarrow> LNAdr \<Rightarrow> connectPeerMsg \<times> server" where
  "ConnectToPeer_query s a =
     (\<lparr>addr = a, reply = next_reply s\<rparr>,
      s\<lparr>replies := (replies s)(next_reply s := \<lparr>rbuf = [], got = None\<rparr>),
        next_reply := Suc (next_reply s)\<rparr>)"

definition ConnectToPeer_returns :: "server \<Rightarrow> connectPeerMsg \<Rightarrow> error option option" where
  "ConnectToPeer_returns s msg = got (replies s (reply msg))"

text \<open>The values that were accepted by the reply channel of a request, in order.\<close>

definition delivered :: "server \<Rightarrow> connectPeerMsg \<Rightarrow> error option list" where
  "delivered s msg =
     (case got (replies s (reply msg)) of None \<Rightarrow> [] | Some v \<Rightarrow> [v]) @ rbuf (replies s (reply msg))"

text \<open>
  A connect request served: the query is handed over, \<^verbatim>\<open>queryHandler\<close> makes its pass,
  and the goroutine it launched runs.
\<close>

definition serveConnect ::
  "(byte list \<Rightarrow> string \<Rightarrow> byte list \<Rightarrow> error option) \<Rightarrow> (LNDConn \<Rightarrow> peer)
     \<Rightarrow> server \<Rightarrow> LNAdr \<Rightarrow> connectPeerMsg \<times> server ctl" where
  "serveConnect Dial newPeer s a =
     (let (msg, s1) = ConnectToPeer_query s a in
      (msg,
       case queryHandler (RecvQuery (ConnectPeerMsg msg) :: unit qh_case) s1 of
         Some (Next s2) \<Rightarrow> dialTask Dial newPeer msg s2
       | Some r \<Rightarrow> r
       | None \<Rightarrow> Blocked s1))"

subsection \<open>Start and Stop\<close>

text \<open>\<^verbatim>\<open>atomic.AddInt32\<close> adds with wrap-around and returns the new value.\<close>

definition Start :: "server \<Rightarrow> server" where
  "Start s =
     (let s1 = s\<lparr>started := started s + 1\<rparr> in
      if started s1 \<noteq> 1 then s1
      else
        (let s2 = fold (\<lambda>l t. t\<lparr>wg := wg t + 1,
                                goroutines := goroutines t @ [GoListener (lnAddr l)]\<rparr>)
                    (listeners s1) s1;
             s3 = s2\<lparr>wg := wg s2 + 2\<rparr>;
             s4 = s3\<lparr>goroutines := goroutines s3 @ [GoPeerManager]\<rparr>
         in s4\<lparr>goroutines := goroutines s4 @ [GoQueryHandler]\<rparr>))"

text \<open>
  The loop of \<^verbatim>\<open>Stop\<close> over the listeners: each is closed in turn, and the first
  error ends the loop and the call.
\<close>

fun closeListeners :: "listener list \<Rightarrow> error option \<times> listener list" where
  "closeListeners [] = (None, [])"
| "closeListeners (l # ls) =
     (let l' = l\<lparr>closeCalls := Suc (closeCalls l)\<rparr> in
      case closeResult l of
        Some err \<Rightarrow> (Some err, l' # ls)
      | None \<Rightarrow> (case closeListeners ls of (r, ls') \<Rightarrow> (r, l' # ls')))"

text \<open>Closing a channel that is closed already is a run-time panic.\<close>

definition Stop :: "server \<Rightarrow> (error option \<times> server) go_result" where
  "Stop s =
     (let s1 = s\<lparr>shutdown := shutdown s + 1\<rparr> in
      if shutdown s1 \<noteq> 1 then Return (None, s1)
      else
        (case closeListeners (listeners s1) of
           (Some err, ls) \<Rightarrow> Return (Some err, s1\<lparr>listeners := ls\<rparr>)
         | (None, ls) \<Rightarrow>
             (let s2 = s1\<lparr>listeners := ls\<rparr>;
                  s3 = s2\<lparr>rpcServer_stops := Suc (rpcServer_stops s2)\<rparr>;
                  s4 = s3\<lparr>lnwallet_stops := Suc (lnwallet_stops s3)\<rparr>
              in if quit s4 then Panic ''close of closed channel''
                 else Return (None, s4\<lparr>quit := True\<rparr>))))"

subsection \<open>Example states\<close>

text \<open>
  A target address, peers registered under it, and the server as \<^verbatim>\<open>newServer\<close> returns
  it for given listeners; the properties below are instantiated at these.
\<close>

definition example_adr :: LNAdr where
  "example_adr =
     \<lparr>PubKey = None, Base58Addr = [1, 2, 3], NetAddr = ''10.0.0.1:10011'',
      LNAdr_String = ''peer@10.0.0.1:10011''\<rparr>"

definition example_peer :: "32 word \<Rightarrow> peer" where
  "example_peer i =
     \<lparr>peerID = i, lightningAddr = example_adr, conn = Dialed ''10.0.0.1:10011'' [1, 2, 3]\<rparr>"

definition example_server :: "listener list \<Rightarrow> server" where
  "example_server ls =
     \<lparr>started = 0, shutdown = 0, longTermPriv = [7], listeners = ls,
      peers = [], rpcServer_stops = 0, lnwallet_stops = 0, newPeers = [],
      donePeers = [], wg = 0, quit = False, goroutines = [], peer_stops = [],
      replies = (\<lambda>n. \<lparr>rbuf = [], got = None\<rparr>), next_reply = 0\<rparr>"

definition three_peers :: server where
  "three_peers =
     (example_server [])\<lparr>peers := [(1, example_peer 1), (2, example_peer 2), (3, example_peer 3)]\<rparr>"

section \<open>Properties of the wire messages\<close>

lemma length_putBE: "length (putBE n v) = n"
  by (induction n arbitrary: v) simp_all

lemma getBE_snoc: "getBE (bs @ [b]) = push_bit 8 (getBE bs) OR ucast b"
  by (simp add: getBE_def)

lemma getBE_step:
  "push_bit 8 (take_bit (8 * n) (drop_bit 8 v)) OR ucast (ucast v :: byte) =
   take_bit (8 * Suc n) (v :: 64 word)"
proof (rule bit_word_eqI)
  fix k
  assume k: "k < LENGTH(64)"
  show "bit (push_bit 8 (take_bit (8 * n) (drop_bit 8 v)) OR ucast (ucast v :: byte)) k =
        bit (take_bit (8 * Suc n) v) k"
    using k by (cases "8 \<le> k") (auto simp add: bit_simps)
qed

lemma getBE_putBE: "getBE (putBE n v) = take_bit (8 * n) v"
proof (induction n arbitrary: v)
  case 0
  show ?case by (simp add: getBE_def)
next
  case (Suc n)
  show ?case by (simp only: putBE.simps getBE_snoc Suc.IH getBE_step)
qed

lemma getBE_putBE_8: "getBE (putBE 8 v) = v"
  by (simp add: getBE_putBE take_bit_word_eq_self)

lemma readFull_append: "length bs = n \<Longrightarrow> readFull n (bs @ r) = Inr (bs, r)"
  by (simp add: readFull_def)

lemma readElement_uint64_put: "readElement_uint64 (putBE 8 v @ r) = Inr (v, r)"
  by (simp add: readElement_uint64_def readFull_append length_putBE getBE_putBE_8)

lemma HTLCAddReject_Encode_bytes:
  "HTLCAddReject_Encode m pver =
     Inr (putBE 8 (HTLCAddReject.ChannelID m) @ putBE 8 (HTLCAddReject.HTLCKey m))"
  by (simp add: HTLCAddReject_Encode_def writeElement_uint64_def)

lemma HTLCAddReject_Decode_bytes:
  "HTLCAddReject_Decode c
     (putBE 8 (HTLCAddReject.ChannelID m) @ putBE 8 (HTLCAddReject.HTLCKey m) @ r) pver =
   Inr (m, r)"
  by (simp add: HTLCAddReject_Decode_def readElement_uint64_put)

lemma HTLCAddAccept_Encode_bytes:
  "HTLCAddAccept_Encode m pver =
     Inr (putBE 8 (HTLCAddAccept.ChannelID m) @ putBE 8 (HTLCAddAccept.HTLCKey m))"
  by (simp add: HTLCAddAccept_Encode_def writeElement_uint64_def)

lemma HTLCAddAccept_Decode_bytes:
  "HTLCAddAccept_Decode c
     (putBE 8 (HTLCAddAccept.ChannelID m) @ putBE 8 (HTLCAddAccept.HTLCKey m) @ r) pver =
   Inr (m, r)"
  by (simp add: HTLCAddAccept_Decode_def readElement_uint64_put)

lemma readElement_sig_blob:
  assumes "1 + length sig \<le> MaxSigElementLen" and "parse sig = Some sg"
  shows "readElement_sig parse ((of_nat (length sig) :: byte) # sig @ r) = Inr (Some sg, r)"
proof -
  have "length sig < 256"
    using assms(1) by (simp add: MaxSigElementLen_def)
  then have len: "unat (of_nat (length sig) :: byte) = length sig"
    by (simp add: unat_of_nat)
  show ?thesis
    using assms by (simp add: readElement_sig_def readFull_def len)
qed

lemma readElement_sha_hash:
  "length h = HashSize \<Longrightarrow> readElement_sha (h @ r) = Inr (Some h, r)"
  by (simp add: readElement_sha_def readFull_def)

lemma CloseComplete_Encode_Some:
  "1 + length (serialize sg) \<le> MaxSigElementLen \<Longrightarrow>
   CloseComplete_Encode serialize
     \<lparr>ReservationID = rid, ResponderCloseSig = Some sg, CloseShaHash = Some h\<rparr> pver =
   Inr (putBE 8 rid @ (of_nat (length (serialize sg)) # serialize sg) @ h)"
  by (simp add: CloseComplete_Encode_def writeElement_uint64_def writeElement_sig_def
      writeElement_sha_def Let_def)

lemma CloseComplete_Decode_Some:
  assumes "1 + length (serialize sg) \<le> MaxSigElementLen" and "parse (serialize sg) = Some sg"
    and "length h = HashSize"
  shows "CloseComplete_Decode parse c
           (putBE 8 rid @ (of_nat (length (serialize sg)) # serialize sg) @ h @ r) pver =
         Inr (\<lparr>ReservationID = rid, ResponderCloseSig = Some sg, CloseShaHash = Some h\<rparr>, r)"
  using assms
  by (simp add: CloseComplete_Decode_def readElement_uint64_put readElement_sig_blob
      readElement_sha_hash)

lemma CloseComplete_Encode_nil:
  "CloseComplete_Encode serialize
     \<lparr>ReservationID = rid, ResponderCloseSig = None, CloseShaHash = None\<rparr> pver =
   Inr (putBE 8 rid @ [0] @ replicate 32 0)"
  by (simp add: CloseComplete_Encode_def writeElement_uint64_def writeElement_sig_def
      writeElement_sha_def HashSize_def)

text \<open>Whatever the signature parser does, a decoded CloseComplete has no nil field.\<close>

lemma CloseComplete_Decode_never_nil:
  "CloseComplete_Decode parse c r pver = Inr (m, r') \<Longrightarrow>
   ResponderCloseSig m \<noteq> None \<and> CloseShaHash m \<noteq> None"
  by (auto simp add: CloseComplete_Decode_def readElement_sig_def readElement_sha_def Let_def
      split: sum.splits prod.splits if_splits option.splits) metis

lemma CloseComplete_Encode_length:
  assumes "CloseComplete_Encode serialize m pver = Inr bs"
  shows "length bs =
           8 + 1 + (case ResponderCloseSig m of None \<Rightarrow> 0 | Some sg \<Rightarrow> length (serialize sg))
           + (case CloseShaHash m of None \<Rightarrow> 32 | Some h \<Rightarrow> length h)
         \<and> (case ResponderCloseSig m of None \<Rightarrow> 0 | Some sg \<Rightarrow> length (serialize sg)) \<le> 72"
  using assms
  by (auto simp add: CloseComplete_Encode_def writeElement_uint64_def writeElement_sig_def
      writeElement_sha_def HashSize_def MaxSigElementLen_def Let_def length_putBE
      split: option.splits if_splits)

lemma putBE_42: "putBE 8 42 = [0, 0, 0, 0, 0, 0, 0, 42]"
  by code_simp

lemma putBE_7: "putBE 8 7 = [0, 0, 0, 0, 0, 0, 0, 7]"
  by code_simp

lemma putBE_1: "putBE 8 1 = [0, 0, 0, 0, 0, 0, 0, 1]"
  by code_simp

text \<open>
  Claim C4, as amended. Decoding the bytes that \<^verbatim>\<open>Encode\<close> produced gives back the
  message, field by field, with no input left over, at any protocol versions: for
  every HTLCAddReject and every HTLCAddAccept, and for every CloseComplete whose
  signature and hash are both present, where the hash has its 32 bytes and the
  signature serialises to at most 72 bytes (73 with the length byte) that the signature
  parser maps back to it. The destination struct's earlier contents do not matter.
\<close>

theorem C4_decode_encode_roundtrip:
  "(\<exists>bs. HTLCAddReject_Encode m1 pver = Inr bs \<and> HTLCAddReject_Decode c1 bs pver' = Inr (m1, []))
   \<and> (\<exists>bs. HTLCAddAccept_Encode m2 pver = Inr bs \<and> HTLCAddAccept_Decode c2 bs pver' = Inr (m2, []))
   \<and> (ResponderCloseSig m3 = Some sg \<and> CloseShaHash m3 = Some h \<and> length h = HashSize \<and>
       1 + length (serialize sg) \<le> MaxSigElementLen \<and> parse (serialize sg) = Some sg \<longrightarrow>
       (\<exists>bs. CloseComplete_Encode serialize m3 pver = Inr bs \<and>
             CloseComplete_Decode parse c3 bs pver' = Inr (m3, [])))"
proof (intro conjI impI)
  show "\<exists>bs. HTLCAddReject_Encode m1 pver = Inr bs \<and> HTLCAddReject_Decode c1 bs pver' = Inr (m1, [])"
    using HTLCAddReject_Decode_bytes [of c1 m1 "[]" pver']
    by (simp add: HTLCAddReject_Encode_bytes)
  show "\<exists>bs. HTLCAddAccept_Encode m2 pver = Inr bs \<and> HTLCAddAccept_Decode c2 bs pver' = Inr (m2, [])"
    using HTLCAddAccept_Decode_bytes [of c2 m2 "[]" pver']
    by (simp add: HTLCAddAccept_Encode_bytes)
next
  assume a: "ResponderCloseSig m3 = Some sg \<and> CloseShaHash m3 = Some h \<and> length h = HashSize \<and>
       1 + length (serialize sg) \<le> MaxSigElementLen \<and> parse (serialize sg) = Some sg"
  then have m3: "m3 = \<lparr>ReservationID = ReservationID m3, ResponderCloseSig = Some sg,
                       CloseShaHash = Some h\<rparr>"
    by (cases m3) simp
  have enc: "CloseComplete_Encode serialize m3 pver =
      Inr (putBE 8 (ReservationID m3) @ (of_nat (length (serialize sg)) # serialize sg) @ h)"
    using a CloseComplete_Encode_Some [of serialize sg "ReservationID m3" h pver] m3 by simp
  have dec: "CloseComplete_Decode parse c3
      (putBE 8 (ReservationID m3) @ (of_nat (length (serialize sg)) # serialize sg) @ h @ []) pver'
      = Inr (m3, [])"
    using a CloseComplete_Decode_Some [of serialize sg parse h c3 "ReservationID m3" "[]" pver'] m3
    by simp
  show "\<exists>bs. CloseComplete_Encode serialize m3 pver = Inr bs \<and>
             CloseComplete_Decode parse c3 bs pver' = Inr (m3, [])"
    using enc dec by simp
qed

text \<open>
  The amended claim C4 at concrete messages: ChannelID 42 and HTLCKey 7, and a
  CloseComplete with a signature of eight serialised bytes and a hash of 32 bytes.
\<close>

theorem C4_decode_encode_roundtrip_witness:
  "(\<exists>bs. HTLCAddReject_Encode \<lparr>HTLCAddReject.ChannelID = 42, HTLCAddReject.HTLCKey = 7\<rparr> 0 = Inr bs \<and>
         HTLCAddReject_Decode \<lparr>HTLCAddReject.ChannelID = 0, HTLCAddReject.HTLCKey = 0\<rparr> bs 0 =
           Inr (\<lparr>HTLCAddReject.ChannelID = 42, HTLCAddReject.HTLCKey = 7\<rparr>, []))
   \<and> (\<exists>bs. HTLCAddAccept_Encode \<lparr>HTLCAddAccept.ChannelID = 42, HTLCAddAccept.HTLCKey = 7\<rparr> 0 = Inr bs \<and>
         HTLCAddAccept_Decode \<lparr>HTLCAddAccept.ChannelID = 0, HTLCAddAccept.HTLCKey = 0\<rparr> bs 0 =
           Inr (\<lparr>HTLCAddAccept.ChannelID = 42, HTLCAddAccept.HTLCKey = 7\<rparr>, []))
   \<and> (\<exists>bs. CloseComplete_Encode (\<lambda>sg. [48, 6, 2, 1, 5, 2, 1, 9])
           \<lparr>ReservationID = 1, ResponderCloseSig = Some \<lparr>R = Some 5, S = Some 9\<rparr>,
            CloseShaHash = Some (replicate 32 170)\<rparr> 0 = Inr bs \<and>
         CloseComplete_Decode (\<lambda>sig. if sig = [48, 6, 2, 1, 5, 2, 1, 9]
                                      then Some \<lparr>R = Some 5, S = Some 9\<rparr> else None)
           \<lparr>ReservationID = 0, ResponderCloseSig = None, CloseShaHash = None\<rparr> bs 0 =
           Inr (\<lparr>ReservationID = 1, ResponderCloseSig = Some \<lparr>R = Some 5, S = Some 9\<rparr>,
                 CloseShaHash = Some (replicate 32 170)\<rparr>, []))"
  using C4_decode_encode_roundtrip
    [of "\<lparr>HTLCAddReject.ChannelID = 42, HTLCAddReject.HTLCKey = 7\<rparr>" 0
        "\<lparr>HTLCAddReject.ChannelID = 0, HTLCAddReject.HTLCKey = 0\<rparr>" 0
        "\<lparr>HTLCAddAccept.ChannelID = 42, HTLCAddAccept.HTLCKey = 7\<rparr>"
        "\<lparr>HTLCAddAccept.ChannelID = 0, HTLCAddAccept.HTLCKey = 0\<rparr>"
        "\<lparr>ReservationID = 1, ResponderCloseSig = Some \<lparr>R = Some 5, S = Some 9\<rparr>,
            CloseShaHash = Some (replicate 32 170)\<rparr>"
        "\<lparr>R = Some 5, S = Some 9\<rparr>" "replicate 32 170"
        "\<lambda>sg. [48, 6, 2, 1, 5, 2, 1, 9]"
        "\<lambda>sig. if sig = [48, 6, 2, 1, 5, 2, 1, 9] then Some \<lparr>R = Some 5, S = Some 9\<rparr> else None"
        "\<lparr>ReservationID = 0, ResponderCloseSig = None, CloseShaHash = None\<rparr>"]
  by (simp add: HashSize_def MaxSigElementLen_def)

text \<open>
  Claim C4 as stated fails at nil fields. The CloseComplete with ReservationID 1, a nil
  signature and a nil hash is written as the identifier, a zero length byte and 32 zero
  bytes; decoding these 41 bytes, even with a signature parser that accepts the empty
  blob, gives a message whose signature and hash are present, which is not the original.
\<close>

theorem C4_nil_fields_counterexample:
  "CloseComplete_Encode (\<lambda>sg. [])
     \<lparr>ReservationID = 1, ResponderCloseSig = None, CloseShaHash = None\<rparr> 0 =
     Inr ([0, 0, 0, 0, 0, 0, 0, 1] @ [0] @ replicate 32 0)
   \<and> CloseComplete_Decode (\<lambda>sig. Some \<lparr>R = None, S = None\<rparr>)
       \<lparr>ReservationID = 0, ResponderCloseSig = None, CloseShaHash = None\<rparr>
       ([0, 0, 0, 0, 0, 0, 0, 1] @ [0] @ replicate 32 0) 0 =
     Inr (\<lparr>ReservationID = 1, ResponderCloseSig = Some \<lparr>R = None, S = None\<rparr>,
           CloseShaHash = Some (replicate 32 0)\<rparr>, [])
   \<and> CloseComplete_Decode (\<lambda>sig. Some \<lparr>R = None, S = None\<rparr>)
       \<lparr>ReservationID = 0, ResponderCloseSig = None, CloseShaHash = None\<rparr>
       ([0, 0, 0, 0, 0, 0, 0, 1] @ [0] @ replicate 32 0) 0 \<noteq>
     Inr (\<lparr>ReservationID = 1, ResponderCloseSig = None, CloseShaHash = None\<rparr>, [])"
proof -
  have enc: "CloseComplete_Encode (\<lambda>sg. [])
     \<lparr>ReservationID = 1, ResponderCloseSig = None, CloseShaHash = None\<rparr> 0 =
     Inr ([0, 0, 0, 0, 0, 0, 0, 1] @ [0] @ replicate 32 0)"
    by (simp only: CloseComplete_Encode_nil putBE_1)
  have u: "readElement_uint64 ([0, 0, 0, 0, 0, 0, 0, 1] @ [0] @ replicate 32 0) = Inr (1, [0] @ replicate 32 0)"
    using readElement_uint64_put [of 1 "[0] @ replicate 32 0"] by (simp only: putBE_1)
  have dec: "CloseComplete_Decode (\<lambda>sig. Some \<lparr>R = None, S = None\<rparr>)
       \<lparr>ReservationID = 0, ResponderCloseSig = None, CloseShaHash = None\<rparr>
       ([0, 0, 0, 0, 0, 0, 0, 1] @ [0] @ replicate 32 0) 0 =
     Inr (\<lparr>ReservationID = 1, ResponderCloseSig = Some \<lparr>R = None, S = None\<rparr>,
           CloseShaHash = Some (replicate 32 0)\<rparr>, [])"
    unfolding CloseComplete_Decode_def u
    by (simp add: readElement_sig_def readElement_sha_def readFull_def HashSize_def MaxSigElementLen_def)
  show ?thesis
    unfolding dec using enc by simp
qed

text \<open>
  Claim C5. Whatever the protocol versions \<open>pver\<close> and \<open>v\<close>: \<^verbatim>\<open>Encode\<close> of an
  HTLCAddReject or HTLCAddAccept gives exactly 16 bytes, within
  \<^verbatim>\<open>MaxPayloadLength\<close> (16); every output of \<^verbatim>\<open>Encode\<close> of a CloseComplete (whose
  hash, when present, is a 32 byte array) is within \<^verbatim>\<open>MaxPayloadLength\<close> (113); and
  HTLCAddReject with ChannelID 42 and HTLCKey 7 is written as 16 bytes, given here.
\<close>

theorem C5_encode_within_MaxPayloadLength:
  "(\<exists>bs. HTLCAddReject_Encode m1 pver = Inr bs \<and> length bs = 16 \<and>
         length bs \<le> unat (HTLCAddReject_MaxPayloadLength v))
   \<and> (\<exists>bs. HTLCAddAccept_Encode m2 pver = Inr bs \<and> length bs = 16 \<and>
         length bs \<le> unat (HTLCAddAccept_MaxPayloadLength v))
   \<and> (CloseComplete_Encode serialize m3 pver = Inr bs3 \<and> ShaHash_ok (CloseShaHash m3) \<longrightarrow>
         length bs3 \<le> unat (CloseComplete_MaxPayloadLength v))
   \<and> HTLCAddReject_Encode \<lparr>HTLCAddReject.ChannelID = 42, HTLCAddReject.HTLCKey = 7\<rparr> pver =
         Inr [0, 0, 0, 0, 0, 0, 0, 42, 0, 0, 0, 0, 0, 0, 0, 7]"
proof (intro conjI impI)
  show "\<exists>bs. HTLCAddReject_Encode m1 pver = Inr bs \<and> length bs = 16 \<and>
         length bs \<le> unat (HTLCAddReject_MaxPayloadLength v)"
    by (simp add: HTLCAddReject_Encode_bytes length_putBE HTLCAddReject_MaxPayloadLength_def)
  show "\<exists>bs. HTLCAddAccept_Encode m2 pver = Inr bs \<and> length bs = 16 \<and>
         length bs \<le> unat (HTLCAddAccept_MaxPayloadLength v)"
    by (simp add: HTLCAddAccept_Encode_bytes length_putBE HTLCAddAccept_MaxPayloadLength_def)
  show "HTLCAddReject_Encode \<lparr>HTLCAddReject.ChannelID = 42, HTLCAddReject.HTLCKey = 7\<rparr> pver =
         Inr [0, 0, 0, 0, 0, 0, 0, 42, 0, 0, 0, 0, 0, 0, 0, 7]"
    by (simp add: HTLCAddReject_Encode_bytes putBE_42 putBE_7)
next
  assume a: "CloseComplete_Encode serialize m3 pver = Inr bs3 \<and> ShaHash_ok (CloseShaHash m3)"
  then have "(case CloseShaHash m3 of None \<Rightarrow> 32 | Some h \<Rightarrow> length h) = 32"
    by (simp add: ShaHash_ok_def HashSize_def split: option.splits)
  with a CloseComplete_Encode_length [of serialize m3 pver bs3]
  have "length bs3 \<le> 113" by simp
  then show "length bs3 \<le> unat (CloseComplete_MaxPayloadLength v)"
    by (simp add: CloseComplete_MaxPayloadLength_def)
qed

text \<open>
  Claim C5 at a CloseComplete of the largest size: a signature of 72 serialised bytes
  and a hash, 113 bytes in all.
\<close>

theorem C5_encode_within_MaxPayloadLength_witness:
  "CloseComplete_Encode (\<lambda>sg. replicate 72 1)
     \<lparr>ReservationID = 1, ResponderCloseSig = Some \<lparr>R = Some 5, S = Some 9\<rparr>,
      CloseShaHash = Some (replicate 32 170)\<rparr> 0 =
     Inr ([0, 0, 0, 0, 0, 0, 0, 1] @ [72] @ replicate 72 1 @ replicate 32 170)
   \<and> ShaHash_ok (Some (replicate 32 170))
   \<and> length ([0, 0, 0, 0, 0, 0, 0, 1] @ [72] @ replicate 72 1 @ replicate 32 (170 :: byte))
       \<le> unat (CloseComplete_MaxPayloadLength 0)"
proof -
  have enc: "CloseComplete_Encode (\<lambda>sg. replicate 72 1)
     \<lparr>ReservationID = 1, ResponderCloseSig = Some \<lparr>R = Some 5, S = Some 9\<rparr>,
      CloseShaHash = Some (replicate 32 170)\<rparr> 0 =
     Inr ([0, 0, 0, 0, 0, 0, 0, 1] @ [72] @ replicate 72 1 @ replicate 32 170)"
    using CloseComplete_Encode_Some [of "\<lambda>sg. replicate 72 1" "\<lparr>R = Some 5, S = Some 9\<rparr>" 1
        "replicate 32 170" 0]
    by (simp add: MaxSigElementLen_def putBE_1)
  have ok: "ShaHash_ok (Some (replicate 32 170))"
    by (simp add: ShaHash_ok_def HashSize_def)
  from C5_encode_within_MaxPayloadLength
    [of _ 0 0 _ "\<lambda>sg. replicate 72 1"
        "\<lparr>ReservationID = 1, ResponderCloseSig = Some \<lparr>R = Some 5, S = Some 9\<rparr>,
          CloseShaHash = Some (replicate 32 170)\<rparr>"
        "[0, 0, 0, 0, 0, 0, 0, 1] @ [72] @ replicate 72 1 @ replicate 32 170"]
    enc ok
  have "length ([0, 0, 0, 0, 0, 0, 0, 1] @ [72] @ replicate 72 1 @ replicate 32 (170 :: byte))
       \<le> unat (CloseComplete_MaxPayloadLength 0)"
    by simp
  with enc ok show ?thesis by blast
qed

text \<open>
  Claim C6. For every ReservationID, a CloseComplete with a nil signature and a nil hash
  is encoded without an error as one fixed sequence of bytes (the identifier, a zero
  length byte, 32 zero bytes), the same for every serialiser and protocol version; and
  \<^verbatim>\<open>String\<close> renders it with nothing after ``ResponderCloseSig:'' and after
  ``CloseShaHash:'', never calling the library on the nil fields.
\<close>

theorem C6_nil_fields_encode_and_String:
  "CloseComplete_Encode serialize
     \<lparr>ReservationID = rid, ResponderCloseSig = None, CloseShaHash = None\<rparr> pver =
     Inr (putBE 8 rid @ [0] @ replicate 32 0)
   \<and> CloseComplete_String serialize shaStr
       \<lparr>ReservationID = rid, ResponderCloseSig = None, CloseShaHash = None\<rparr> =
     ''\<newline>--- Begin CloseComplete ---\<newline>'' @
     ''ReservationID:'' @ [CHR 0x09, CHR 0x09] @ fmt_d (unat rid) @ ''\<newline>'' @
     ''ResponderCloseSig:'' @ [CHR 0x09] @ '''' @ ''\<newline>'' @
     ''CloseShaHash:'' @ [CHR 0x09, CHR 0x09] @ '''' @ ''\<newline>'' @
     ''--- End CloseComplete ---\<newline>''"
  by (simp add: CloseComplete_Encode_nil CloseComplete_String_def fmt_x_def)

text \<open>
  Claim C6 at the spec's scenario 2, ReservationID 1.
\<close>

theorem C6_nil_fields_encode_and_String_witness:
  "CloseComplete_Encode (\<lambda>sg. [])
     \<lparr>ReservationID = 1, ResponderCloseSig = None, CloseShaHash = None\<rparr> 0 =
     Inr ([0, 0, 0, 0, 0, 0, 0, 1] @ [0] @ replicate 32 0)
   \<and> CloseComplete_String (\<lambda>sg. []) (\<lambda>h. ''00'')
       \<lparr>ReservationID = 1, ResponderCloseSig = None, CloseShaHash = None\<rparr> =
     ''\<newline>--- Begin CloseComplete ---\<newline>'' @
     ''ReservationID:'' @ [CHR 0x09, CHR 0x09] @ ''1'' @ ''\<newline>'' @
     ''ResponderCloseSig:'' @ [CHR 0x09] @ ''\<newline>'' @
     ''CloseShaHash:'' @ [CHR 0x09, CHR 0x09] @ ''\<newline>'' @
     ''--- End CloseComplete ---\<newline>''"
proof -
  have d: "fmt_d (Suc 0) = ''1''"
    by (simp add: fmt_d.simps [of "Suc 0"] digit_char_def)
  show ?thesis
    using C6_nil_fields_encode_and_String [of "\<lambda>sg. []" 1 0 "\<lambda>h. ''00''"]
    by (simp add: putBE_1 d)
qed

section \<open>Properties of the server\<close>

subsection \<open>The example states\<close>

lemma newListeners_all_made: "newListeners (map Inr ls) = Inr ls"
  by (induction ls) simp_all

lemma newServer_example: "newServer (Inr [7]) (map Inr ls) = Inr (example_server ls)"
  by (simp add: newServer_def newListeners_all_made example_server_def)

text \<open>
  \<open>three_peers\<close> is reached from the new server by three calls of \<^verbatim>\<open>AddPeer\<close>, each
  followed by a pass of the mutator.
\<close>

lemma three_peers_reachable:
  "AddPeer (example_server []) (Some (example_peer 1)) =
     Exit ((example_server [])\<lparr>newPeers := [Some (example_peer 1)]\<rparr>)
   \<and> peerManager RecvNewPeers ((example_server [])\<lparr>newPeers := [Some (example_peer 1)]\<rparr>) =
     Some (Next ((example_server [])\<lparr>peers := [(1, example_peer 1)]\<rparr>))
   \<and> AddPeer ((example_server [])\<lparr>peers := [(1, example_peer 1)]\<rparr>) (Some (example_peer 2)) =
     Exit ((example_server [])\<lparr>peers := [(1, example_peer 1)], newPeers := [Some (example_peer 2)]\<rparr>)
   \<and> peerManager RecvNewPeers
        ((example_server [])\<lparr>peers := [(1, example_peer 1)], newPeers := [Some (example_peer 2)]\<rparr>) =
     Some (Next ((example_server [])\<lparr>peers := [(1, example_peer 1), (2, example_peer 2)]\<rparr>))
   \<and> AddPeer ((example_server [])\<lparr>peers := [(1, example_peer 1), (2, example_peer 2)]\<rparr>)
        (Some (example_peer 3)) =
     Exit ((example_server [])\<lparr>peers := [(1, example_peer 1), (2, example_peer 2)],
                               newPeers := [Some (example_peer 3)]\<rparr>)
   \<and> peerManager RecvNewPeers
        ((example_server [])\<lparr>peers := [(1, example_peer 1), (2, example_peer 2)],
                               newPeers := [Some (example_peer 3)]\<rparr>) =
     Some (Next three_peers)"
  by (simp add: AddPeer_def send_newPeers_def addPeer_def example_server_def three_peers_def
      example_peer_def)

subsection \<open>The reply channel and the scan for duplicates\<close>

lemma send_reply_fresh:
  "send_reply v \<lparr>rbuf = [], got = None\<rparr> = Some \<lparr>rbuf = [], got = Some v\<rparr>"
  by (simp add: send_reply_def recv_reply_def)

lemma send_reply_second:
  "send_reply v \<lparr>rbuf = [], got = Some w\<rparr> = Some \<lparr>rbuf = [v], got = Some w\<rparr>"
  by (simp add: send_reply_def recv_reply_def)

lemma send_reply_third:
  "send_reply v \<lparr>rbuf = [u], got = Some w\<rparr> = None"
  by (simp add: send_reply_def recv_reply_def)

lemma errAlreadyConnected_match:
  "LNAdr_String (lightningAddr p) = LNAdr_String (addr msg) \<Longrightarrow>
   e = ''already connected to peer: '' @ LNAdr_String (addr msg) \<Longrightarrow>
   errAlreadyConnected p = e"
  by (simp add: errAlreadyConnected_def)

lemma scanPeers_full:
  assumes "replies s (reply msg) = \<lparr>rbuf = [u], got = Some w\<rparr>"
  shows "scanPeers msg ps s =
           (if filter (\<lambda>p. LNAdr_String (lightningAddr p) = LNAdr_String (addr msg)) ps = []
            then Next s else Blocked s)"
  using assms by (induction ps) (simp_all add: reply_to_def send_reply_third)

lemma scanPeers_one_taken:
  assumes c: "replies s (reply msg) = \<lparr>rbuf = [], got = Some w\<rparr>"
    and e: "e = ''already connected to peer: '' @ LNAdr_String (addr msg)"
  shows "scanPeers msg ps s =
           (let n = length (filter (\<lambda>p. LNAdr_String (lightningAddr p) = LNAdr_String (addr msg)) ps);
                s' = s\<lparr>replies := (replies s)(reply msg := \<lparr>rbuf = [Some e], got = Some w\<rparr>)\<rparr>
            in if n = 0 then Next s else if n = 1 then Next s' else Blocked s')"
proof (induction ps)
  case Nil
  show ?case by simp
next
  case (Cons p ps)
  show ?case
  proof (cases "LNAdr_String (lightningAddr p) = LNAdr_String (addr msg)")
    case False
    with Cons show ?thesis by simp
  next
    case True
    let ?s' = "s\<lparr>replies := (replies s)(reply msg := \<lparr>rbuf = [Some e], got = Some w\<rparr>)\<rparr>"
    have "errAlreadyConnected p = e"
      using True e by (rule errAlreadyConnected_match)
    then have r: "reply_to msg (Some (errAlreadyConnected p)) s = Some ?s'"
      using c by (simp add: reply_to_def send_reply_second)
    have "replies ?s' (reply msg) = \<lparr>rbuf = [Some e], got = Some w\<rparr>" by simp
    from scanPeers_full [OF this, of ps] r True show ?thesis
      by (simp add: Let_def fun_upd_def)
  qed
qed

text \<open>
  On a fresh reply channel the scan depends on the number of registered peers that
  match the target: the first error is taken by the requester, the second stays in the
  buffer, and the third send never ends.
\<close>

lemma scanPeers_fresh:
  assumes c: "replies s (reply msg) = \<lparr>rbuf = [], got = None\<rparr>"
    and e: "e = ''already connected to peer: '' @ LNAdr_String (addr msg)"
  shows "scanPeers msg ps s =
           (let n = length (filter (\<lambda>p. LNAdr_String (lightningAddr p) = LNAdr_String (addr msg)) ps);
                s1 = s\<lparr>replies := (replies s)(reply msg := \<lparr>rbuf = [], got = Some (Some e)\<rparr>)\<rparr>;
                s2 = s\<lparr>replies := (replies s)(reply msg := \<lparr>rbuf = [Some e], got = Some (Some e)\<rparr>)\<rparr>
            in if n = 0 then Next s else if n = 1 then Next s1
               else if n = 2 then Next s2 else Blocked s2)"
proof (induction ps)
  case Nil
  show ?case by simp
next
  case (Cons p ps)
  show ?case
  proof (cases "LNAdr_String (lightningAddr p) = LNAdr_String (addr msg)")
    case False
    with Cons show ?thesis by simp
  next
    case True
    let ?s1 = "s\<lparr>replies := (replies s)(reply msg := \<lparr>rbuf = [], got = Some (Some e)\<rparr>)\<rparr>"
    have "errAlreadyConnected p = e"
      using True e by (rule errAlreadyConnected_match)
    then have r: "reply_to msg (Some (errAlreadyConnected p)) s = Some ?s1"
      using c by (simp add: reply_to_def send_reply_fresh)
    have "replies ?s1 (reply msg) = \<lparr>rbuf = [], got = Some (Some e)\<rparr>" by simp
    from scanPeers_one_taken [OF this, of e ps] e have
      "scanPeers msg ps ?s1 =
        (let n = length (filter (\<lambda>p. LNAdr_String (lightningAddr p) = LNAdr_String (addr msg)) ps);
             s' = ?s1\<lparr>replies := (replies ?s1)(reply msg := \<lparr>rbuf = [Some e], got = Some (Some e)\<rparr>)\<rparr>
         in if n = 0 then Next ?s1 else if n = 1 then Next s' else Blocked s')"
      by blast
    with r True show ?thesis
      by (simp add: Let_def fun_upd_def cong: if_cong)
  qed
qed

text \<open>
  A connect query on a fresh reply channel, by the number \<open>n\<close> of matching peers: with
  one or two the requester gets the duplicate error and the dial task is launched all the
  same; with three or more the query processor is blocked and launches nothing.
\<close>

lemma queryHandler_connect_fresh:
  assumes c: "replies s (reply msg) = \<lparr>rbuf = [], got = None\<rparr>"
    and e: "e = ''already connected to peer: '' @ LNAdr_String (addr msg)"
    and n: "n = length (filter (\<lambda>p. LNAdr_String (lightningAddr p) = LNAdr_String (addr msg))
                  (map snd (peers s)))"
  shows "queryHandler (RecvQuery (ConnectPeerMsg msg)) s =
           Some (if n = 0 then Next (s\<lparr>goroutines := goroutines s @ [GoDial msg]\<rparr>)
                 else if n = 1 then
                   Next (s\<lparr>goroutines := goroutines s @ [GoDial msg],
                           replies := (replies s)(reply msg := \<lparr>rbuf = [], got = Some (Some e)\<rparr>)\<rparr>)
                 else if n = 2 then
                   Next (s\<lparr>goroutines := goroutines s @ [GoDial msg],
                           replies := (replies s)(reply msg := \<lparr>rbuf = [Some e], got = Some (Some e)\<rparr>)\<rparr>)
                 else
                   Blocked (s\<lparr>replies := (replies s)(reply msg := \<lparr>rbuf = [Some e], got = Some (Some e)\<rparr>)\<rparr>))"
  using scanPeers_fresh [OF c e, of "map snd (peers s)"] n
  by (simp add: Let_def)

subsection \<open>The dial task\<close>

text \<open>
  With no duplicate and room in \<^verbatim>\<open>newPeers\<close>: a successful dial delivers the nil reply
  alone; a failed dial delivers its error, and the task goes on to make a peer from the
  unconnected connection, to queue it and to deliver nil as well.
\<close>

lemma dialTask_dial_succeeds:
  assumes "replies s (reply msg) = \<lparr>rbuf = [], got = None\<rparr>"
    and "length (newPeers s) < 100"
    and "Dial (longTermPriv s) (NetAddr (addr msg))
           (case PubKey (addr msg) of None \<Rightarrow> Base58Addr (addr msg) | Some key \<Rightarrow> key) = None"
  shows "dialTask Dial newPeer msg s =
           Exit (s\<lparr>newPeers := newPeers s @
                     [Some (newPeer (Dialed (NetAddr (addr msg))
                        (case PubKey (addr msg) of None \<Rightarrow> Base58Addr (addr msg) | Some key \<Rightarrow> key)))],
                   replies := (replies s)(reply msg := \<lparr>rbuf = [], got = Some None\<rparr>)\<rparr>)"
  using assms
  by (simp add: dialTask_def Let_def reply_to_def send_reply_fresh send_newPeers_def)

lemma dialTask_dial_fails:
  assumes "replies s (reply msg) = \<lparr>rbuf = [], got = None\<rparr>"
    and "length (newPeers s) < 100"
    and "Dial (longTermPriv s) (NetAddr (addr msg))
           (case PubKey (addr msg) of None \<Rightarrow> Base58Addr (addr msg) | Some key \<Rightarrow> key) = Some err"
  shows "dialTask Dial newPeer msg s =
           Exit (s\<lparr>newPeers := newPeers s @ [Some (newPeer NewConn)],
                   replies := (replies s)(reply msg := \<lparr>rbuf = [None], got = Some (Some err)\<rparr>)\<rparr>)"
  using assms
  by (simp add: dialTask_def Let_def reply_to_def send_reply_fresh send_reply_second
      send_newPeers_def)

text \<open>
  Claim C1, at the input where the code departs from it. On the new server (no peer
  registered), a connect request whose dial fails with ``dial failed'': the task
  delivers that error, which \<^verbatim>\<open>ConnectToPeer\<close> returns, then queues a peer made from
  the connection that was never established, and delivers nil too. Two values reach the
  reply channel, not one.
\<close>

theorem C1_dial_failure_delivers_twice:
  "serveConnect (\<lambda>key ip rid. Some ''dial failed'')
     (\<lambda>c. \<lparr>peerID = 1, lightningAddr = example_adr, conn = c\<rparr>) (example_server []) example_adr =
     (\<lparr>addr = example_adr, reply = 0\<rparr>,
      Exit ((example_server [])
        \<lparr>newPeers := [Some \<lparr>peerID = 1, lightningAddr = example_adr, conn = NewConn\<rparr>],
         goroutines := [GoDial \<lparr>addr = example_adr, reply = 0\<rparr>],
         replies := (replies (example_server []))
                      (0 := \<lparr>rbuf = [None], got = Some (Some ''dial failed'')\<rparr>),
         next_reply := 1\<rparr>))
   \<and> delivered ((example_server [])
        \<lparr>newPeers := [Some \<lparr>peerID = 1, lightningAddr = example_adr, conn = NewConn\<rparr>],
         goroutines := [GoDial \<lparr>addr = example_adr, reply = 0\<rparr>],
         replies := (replies (example_server []))
                      (0 := \<lparr>rbuf = [None], got = Some (Some ''dial failed'')\<rparr>),
         next_reply := 1\<rparr>) \<lparr>addr = example_adr, reply = 0\<rparr> = [Some ''dial failed'', None]"
  by (simp add: serveConnect_def ConnectToPeer_query_def example_server_def dialTask_def Let_def
      reply_to_def send_reply_fresh send_reply_second send_newPeers_def delivered_def
      example_adr_def)

text \<open>
  Claim C2, at the input where the code departs from it. With three peers registered
  under the target's address, the query processor sends three duplicate errors on the
  reply channel of capacity 1: the requester takes the first, the second fills the
  buffer, and the third send blocks for ever. The processor never reaches the launch of
  the dial task (no goroutine is added) and serves no further query.
\<close>

theorem C2_three_duplicates_block_handler:
  "ConnectToPeer_query three_peers example_adr =
     (\<lparr>addr = example_adr, reply = 0\<rparr>,
      three_peers\<lparr>replies := (replies three_peers)(0 := \<lparr>rbuf = [], got = None\<rparr>),
                  next_reply := 1\<rparr>)
   \<and> queryHandler (RecvQuery (ConnectPeerMsg \<lparr>addr = example_adr, reply = 0\<rparr>) :: unit qh_case)
       (three_peers\<lparr>replies := (replies three_peers)(0 := \<lparr>rbuf = [], got = None\<rparr>),
                    next_reply := 1\<rparr>) =
     Some (Blocked
       (three_peers
          \<lparr>replies := (replies three_peers)
             (0 := \<lparr>rbuf = [Some ''already connected to peer: peer@10.0.0.1:10011''],
                    got = Some (Some ''already connected to peer: peer@10.0.0.1:10011'')\<rparr>),
           next_reply := 1\<rparr>))
   \<and> goroutines three_peers = []"
  by (simp add: ConnectToPeer_query_def three_peers_def example_server_def example_peer_def
      example_adr_def reply_to_def send_reply_def recv_reply_def errAlreadyConnected_def)

subsection \<open>Stop\<close>

lemma closeListeners_length: "length (snd (closeListeners ls)) = length ls"
  by (induction ls) (auto simp add: Let_def split: option.splits prod.splits)

lemma closeListeners_calls:
  "i < length ls \<Longrightarrow>
   closeCalls (snd (closeListeners ls) ! i) \<le> Suc (closeCalls (ls ! i))"
proof (induction ls arbitrary: i)
  case Nil
  then show ?case by simp
next
  case (Cons l ls)
  show ?case
  proof (cases i)
    case 0
    then show ?thesis by (simp add: Let_def split: option.splits prod.splits)
  next
    case (Suc j)
    with Cons show ?thesis by (auto simp add: Let_def split: option.splits prod.splits)
  qed
qed

lemma closeListeners_all_ok:
  "list_all (\<lambda>l. closeResult l = None) ls \<Longrightarrow>
   closeListeners ls = (None, map (\<lambda>l. l\<lparr>closeCalls := Suc (closeCalls l)\<rparr>) ls)"
  by (induction ls) (simp_all add: Let_def)

lemma Stop_first:
  assumes "shutdown s = 0" and "\<not> quit s"
  shows "\<exists>s1. Stop s = Return (fst (closeListeners (listeners s)), s1) \<and>
           listeners s1 = snd (closeListeners (listeners s)) \<and>
           shutdown s1 = 1 \<and>
           (quit s1 \<longleftrightarrow> fst (closeListeners (listeners s)) = None)"
proof (cases "closeListeners (listeners s)")
  case (Pair r ls)
  show ?thesis
  proof (cases r)
    case None
    with Pair assms show ?thesis
      by (simp add: Stop_def Let_def)
  next
    case (Some err)
    with Pair assms show ?thesis
      by (simp add: Stop_def Let_def)
  qed
qed

lemma Stop_again: "shutdown s = 1 \<Longrightarrow> Stop s = Return (None, s\<lparr>shutdown := 2\<rparr>)"
  by (simp add: Stop_def Let_def)

text \<open>
  What the loop over the listeners does, without recursion: the listeners up to the
  first one whose \<^verbatim>\<open>Close\<close> fails are closed, that one included, and its error is
  the result; the listeners after it are not touched.
\<close>

lemma closeListeners_split:
  "closeListeners ls =
     (case dropWhile (\<lambda>l. closeResult l = None) ls of
        [] \<Rightarrow> (None, map (\<lambda>l. l\<lparr>closeCalls := Suc (closeCalls l)\<rparr>) ls)
      | l # later \<Rightarrow>
          (closeResult l,
           map (\<lambda>l. l\<lparr>closeCalls := Suc (closeCalls l)\<rparr>)
             (takeWhile (\<lambda>l. closeResult l = None) ls)
           @ l\<lparr>closeCalls := Suc (closeCalls l)\<rparr> # later))"
proof (induction ls)
  case Nil
  show ?case by simp
next
  case (Cons a ls)
  show ?case
  proof (cases "closeResult a")
    case (Some err)
    then show ?thesis by (simp add: Let_def)
  next
    case None
    show ?thesis
    proof (cases "dropWhile (\<lambda>l. closeResult l = None) ls")
      case Nil
      with None Cons.IH show ?thesis
        by (simp add: Let_def del: dropWhile_eq_Nil_conv)
    next
      case (Cons l later)
      with None Cons.IH show ?thesis
        by (simp add: Let_def)
    qed
  qed
qed

lemma dropWhile_head: "dropWhile P ls = l # later \<Longrightarrow> \<not> P l"
  by (metis dropWhile_eq_Cons_conv)

text \<open>
  Claim C3, as amended. Let the shutdown counter be 0 and \<^verbatim>\<open>quit\<close> open, as
  \<^verbatim>\<open>newServer\<close> leaves them and \<^verbatim>\<open>Start\<close> keeps them. When every listener closes
  without error, the first \<^verbatim>\<open>Stop\<close> closes each listener once, stops the RPC
  server and the wallet, closes \<^verbatim>\<open>quit\<close> and returns nil. When \<open>l\<close> is the first
  listener whose \<^verbatim>\<open>Close\<close> fails, the first \<^verbatim>\<open>Stop\<close> closes the listeners before
  \<open>l\<close> and \<open>l\<close> itself once each, returns that error, and leaves the listeners
  after \<open>l\<close>, the collaborators and \<^verbatim>\<open>quit\<close> as they were. In both cases nothing
  else changes but the shutdown counter, and the second \<^verbatim>\<open>Stop\<close> returns nil,
  closes nothing, and changes the shutdown counter only, from 1 to 2.
\<close>

theorem C3_Stop_twice:
  assumes "shutdown s = 0" and "\<not> quit s"
  shows "(dropWhile (\<lambda>l. closeResult l = None) (listeners s) = [] \<longrightarrow>
            Stop s = Return (None,
              s\<lparr>shutdown := 1,
                listeners := map (\<lambda>l. l\<lparr>closeCalls := Suc (closeCalls l)\<rparr>) (listeners s),
                rpcServer_stops := Suc (rpcServer_stops s),
                lnwallet_stops := Suc (lnwallet_stops s),
                quit := True\<rparr>))
       \<and> (dropWhile (\<lambda>l. closeResult l = None) (listeners s) = l # later \<longrightarrow>
            (\<exists>err. closeResult l = Some err \<and>
               Stop s = Return (Some err,
                 s\<lparr>shutdown := 1,
                   listeners :=
                     map (\<lambda>l. l\<lparr>closeCalls := Suc (closeCalls l)\<rparr>)
                       (takeWhile (\<lambda>l. closeResult l = None) (listeners s))
                     @ l\<lparr>closeCalls := Suc (closeCalls l)\<rparr> # later\<rparr>)))
       \<and> (Stop s = Return (r, s1) \<longrightarrow> Stop s1 = Return (None, s1\<lparr>shutdown := 2\<rparr>))"
proof (intro conjI impI)
  assume d: "dropWhile (\<lambda>l. closeResult l = None) (listeners s) = []"
  have "closeListeners (listeners s) =
        (None, map (\<lambda>l. l\<lparr>closeCalls := Suc (closeCalls l)\<rparr>) (listeners s))"
    using closeListeners_split [of "listeners s"] d by simp
  with assms show "Stop s = Return (None,
              s\<lparr>shutdown := 1,
                listeners := map (\<lambda>l. l\<lparr>closeCalls := Suc (closeCalls l)\<rparr>) (listeners s),
                rpcServer_stops := Suc (rpcServer_stops s),
                lnwallet_stops := Suc (lnwallet_stops s),
                quit := True\<rparr>)"
    by (simp add: Stop_def Let_def)
next
  assume d: "dropWhile (\<lambda>l. closeResult l = None) (listeners s) = l # later"
  then have "closeResult l \<noteq> None" by (rule dropWhile_head)
  then obtain err where err: "closeResult l = Some err" by blast
  have "closeListeners (listeners s) =
        (Some err,
         map (\<lambda>l. l\<lparr>closeCalls := Suc (closeCalls l)\<rparr>)
           (takeWhile (\<lambda>l. closeResult l = None) (listeners s))
         @ l\<lparr>closeCalls := Suc (closeCalls l)\<rparr> # later)"
    using closeListeners_split [of "listeners s"] d err by simp
  with assms have "Stop s = Return (Some err,
                 s\<lparr>shutdown := 1,
                   listeners :=
                     map (\<lambda>l. l\<lparr>closeCalls := Suc (closeCalls l)\<rparr>)
                       (takeWhile (\<lambda>l. closeResult l = None) (listeners s))
                     @ l\<lparr>closeCalls := Suc (closeCalls l)\<rparr> # later\<rparr>)"
    by (simp add: Stop_def Let_def)
  with err show "\<exists>err. closeResult l = Some err \<and>
               Stop s = Return (Some err,
                 s\<lparr>shutdown := 1,
                   listeners :=
                     map (\<lambda>l. l\<lparr>closeCalls := Suc (closeCalls l)\<rparr>)
                       (takeWhile (\<lambda>l. closeResult l = None) (listeners s))
                     @ l\<lparr>closeCalls := Suc (closeCalls l)\<rparr> # later\<rparr>)"
    by simp
next
  assume r: "Stop s = Return (r, s1)"
  from Stop_first [OF assms] obtain t where
    "Stop s = Return (fst (closeListeners (listeners s)), t) \<and>
      listeners t = snd (closeListeners (listeners s)) \<and>
      shutdown t = 1 \<and>
      (quit t \<longleftrightarrow> fst (closeListeners (listeners s)) = None)" ..
  with r have "shutdown s1 = 1" by simp
  then show "Stop s1 = Return (None, s1\<lparr>shutdown := 2\<rparr>)" by (rule Stop_again)
qed

text \<open>
  The amended claim C3 before \<^verbatim>\<open>Start\<close>, on a server with two listeners that close
  without error, and on a server with three listeners of which the second fails to
  close: there the third listener is never closed.
\<close>

theorem C3_Stop_twice_witness:
  "Stop (example_server [\<lparr>lnAddr = '':10011'', closeResult = None, closeCalls = 0\<rparr>,
                         \<lparr>lnAddr = '':10012'', closeResult = None, closeCalls = 0\<rparr>]) =
     Return (None,
       (example_server [\<lparr>lnAddr = '':10011'', closeResult = None, closeCalls = 1\<rparr>,
                        \<lparr>lnAddr = '':10012'', closeResult = None, closeCalls = 1\<rparr>])
         \<lparr>shutdown := 1, rpcServer_stops := 1, lnwallet_stops := 1, quit := True\<rparr>)
   \<and> Stop ((example_server [\<lparr>lnAddr = '':10011'', closeResult = None, closeCalls = 1\<rparr>,
                        \<lparr>lnAddr = '':10012'', closeResult = None, closeCalls = 1\<rparr>])
         \<lparr>shutdown := 1, rpcServer_stops := 1, lnwallet_stops := 1, quit := True\<rparr>) =
     Return (None,
       (example_server [\<lparr>lnAddr = '':10011'', closeResult = None, closeCalls = 1\<rparr>,
                        \<lparr>lnAddr = '':10012'', closeResult = None, closeCalls = 1\<rparr>])
         \<lparr>shutdown := 2, rpcServer_stops := 1, lnwallet_stops := 1, quit := True\<rparr>)
   \<and> Stop (example_server [\<lparr>lnAddr = '':10011'', closeResult = None, closeCalls = 0\<rparr>,
                           \<lparr>lnAddr = '':10012'', closeResult = Some ''close failed'', closeCalls = 0\<rparr>,
                           \<lparr>lnAddr = '':10013'', closeResult = None, closeCalls = 0\<rparr>]) =
     Return (Some ''close failed'',
       (example_server [\<lparr>lnAddr = '':10011'', closeResult = None, closeCalls = 1\<rparr>,
                        \<lparr>lnAddr = '':10012'', closeResult = Some ''close failed'', closeCalls = 1\<rparr>,
                        \<lparr>lnAddr = '':10013'', closeResult = None, closeCalls = 0\<rparr>])
         \<lparr>shutdown := 1\<rparr>)
   \<and> Stop ((example_server [\<lparr>lnAddr = '':10011'', closeResult = None, closeCalls = 1\<rparr>,
                        \<lparr>lnAddr = '':10012'', closeResult = Some ''close failed'', closeCalls = 1\<rparr>,
                        \<lparr>lnAddr = '':10013'', closeResult = None, closeCalls = 0\<rparr>])
         \<lparr>shutdown := 1\<rparr>) =
     Return (None,
       (example_server [\<lparr>lnAddr = '':10011'', closeResult = None, closeCalls = 1\<rparr>,
                        \<lparr>lnAddr = '':10012'', closeResult = Some ''close failed'', closeCalls = 1\<rparr>,
                        \<lparr>lnAddr = '':10013'', closeResult = None, closeCalls = 0\<rparr>])
         \<lparr>shutdown := 2\<rparr>)"
  using C3_Stop_twice
    [where s = "example_server [\<lparr>lnAddr = '':10011'', closeResult = None, closeCalls = 0\<rparr>,
                         \<lparr>lnAddr = '':10012'', closeResult = None, closeCalls = 0\<rparr>]"
       and r = None
       and ?s1.0 = "(example_server [\<lparr>lnAddr = '':10011'', closeResult = None, closeCalls = 1\<rparr>,
                        \<lparr>lnAddr = '':10012'', closeResult = None, closeCalls = 1\<rparr>])
         \<lparr>shutdown := 1, rpcServer_stops := 1, lnwallet_stops := 1, quit := True\<rparr>"]
    C3_Stop_twice
    [where s = "example_server [\<lparr>lnAddr = '':10011'', closeResult = None, closeCalls = 0\<rparr>,
                           \<lparr>lnAddr = '':10012'', closeResult = Some ''close failed'', closeCalls = 0\<rparr>,
                           \<lparr>lnAddr = '':10013'', closeResult = None, closeCalls = 0\<rparr>]"
       and l = "\<lparr>lnAddr = '':10012'', closeResult = Some ''close failed'', closeCalls = 0\<rparr>"
       and later = "[\<lparr>lnAddr = '':10013'', closeResult = None, closeCalls = 0\<rparr>]"
       and r = "Some ''close failed''"
       and ?s1.0 = "(example_server [\<lparr>lnAddr = '':10011'', closeResult = None, closeCalls = 1\<rparr>,
                        \<lparr>lnAddr = '':10012'', closeResult = Some ''close failed'', closeCalls = 1\<rparr>,
                        \<lparr>lnAddr = '':10013'', closeResult = None, closeCalls = 0\<rparr>])
         \<lparr>shutdown := 1\<rparr>"]
  by (simp add: example_server_def)

text \<open>
  Claim C3 as stated fails on the new server with one listener whose \<^verbatim>\<open>Close\<close> fails:
  the first \<^verbatim>\<open>Stop\<close> returns that error (and leaves \<^verbatim>\<open>quit\<close> open); and the second
  \<^verbatim>\<open>Stop\<close> does change the state, the shutdown counter going from 1 to 2.
\<close>

theorem C3_Stop_error_counterexample:
  "Stop (example_server [\<lparr>lnAddr = '':10011'', closeResult = Some ''close failed'', closeCalls = 0\<rparr>]) =
     Return (Some ''close failed'',
       (example_server [\<lparr>lnAddr = '':10011'', closeResult = Some ''close failed'', closeCalls = 1\<rparr>])
         \<lparr>shutdown := 1\<rparr>)
   \<and> Stop ((example_server [\<lparr>lnAddr = '':10011'', closeResult = Some ''close failed'', closeCalls = 1\<rparr>])
         \<lparr>shutdown := 1\<rparr>) =
     Return (None,
       (example_server [\<lparr>lnAddr = '':10011'', closeResult = Some ''close failed'', closeCalls = 1\<rparr>])
         \<lparr>shutdown := 2\<rparr>)
   \<and> (example_server [\<lparr>lnAddr = '':10011'', closeResult = Some ''close failed'', closeCalls = 1\<rparr>])
         \<lparr>shutdown := 2\<rparr> \<noteq>
       (example_server [\<lparr>lnAddr = '':10011'', closeResult = Some ''close failed'', closeCalls = 1\<rparr>])
         \<lparr>shutdown := 1\<rparr>"
proof -
  have "shutdown ((example_server [\<lparr>lnAddr = '':10011'', closeResult = Some ''close failed'', closeCalls = 1\<rparr>])
         \<lparr>shutdown := 2\<rparr>) \<noteq> shutdown ((example_server [\<lparr>lnAddr = '':10011'', closeResult = Some ''close failed'', closeCalls = 1\<rparr>])
         \<lparr>shutdown := 1\<rparr>)"
    by simp
  then have "(example_server [\<lparr>lnAddr = '':10011'', closeResult = Some ''close failed'', closeCalls = 1\<rparr>])
         \<lparr>shutdown := 2\<rparr> \<noteq>
       (example_server [\<lparr>lnAddr = '':10011'', closeResult = Some ''close failed'', closeCalls = 1\<rparr>])
         \<lparr>shutdown := 1\<rparr>"
    by metis
  then show ?thesis
    by (simp add: Stop_def example_server_def Let_def)
qed

subsection \<open>The peer-set mutator\<close>

text \<open>
  Claim C7. A peer taken from the new-peer queue by the mutator: when the shutdown flag
  is set, its \<^verbatim>\<open>Stop\<close> is called and the peer map is left as it was; when the flag is
  unset, the peer is registered under its identifier, whatever the map held there. In
  both cases nothing else changes and the worker stays in its loop.
\<close>

theorem C7_new_peer_and_shutdown_flag:
  "newPeers s = Some p # rest \<Longrightarrow>
   (shutdown s \<noteq> 0 \<longrightarrow>
      peerManager RecvNewPeers s =
        Some (Next (s\<lparr>newPeers := rest, peer_stops := peer_stops s @ [p]\<rparr>)))
   \<and> (shutdown s = 0 \<longrightarrow>
      peerManager RecvNewPeers s =
        Some (Next (s\<lparr>newPeers := rest, peers := AList.update (peerID p) p (peers s)\<rparr>))
      \<and> map_of (AList.update (peerID p) p (peers s)) = (map_of (peers s))(peerID p \<mapsto> p))"
  by (simp add: addPeer_def update_conv')

text \<open>
  Claim C7 on the example server with peer 5 in the queue, once with the shutdown flag
  set and once with the flag unset.
\<close>

theorem C7_new_peer_and_shutdown_flag_witness:
  "peerManager RecvNewPeers
     ((example_server [])\<lparr>shutdown := 1, newPeers := [Some (example_peer 5)]\<rparr>) =
     Some (Next ((example_server [])\<lparr>shutdown := 1, peer_stops := [example_peer 5]\<rparr>))
   \<and> peerManager RecvNewPeers ((example_server [])\<lparr>newPeers := [Some (example_peer 5)]\<rparr>) =
     Some (Next ((example_server [])\<lparr>peers := [(5, example_peer 5)]\<rparr>))"
  using C7_new_peer_and_shutdown_flag
    [of "(example_server [])\<lparr>shutdown := 1, newPeers := [Some (example_peer 5)]\<rparr>"
        "example_peer 5" "[]"]
    C7_new_peer_and_shutdown_flag
    [of "(example_server [])\<lparr>newPeers := [Some (example_peer 5)]\<rparr>" "example_peer 5" "[]"]
  by (simp add: example_server_def example_peer_def)

text \<open>
  Claim C9. A done-peer message is a no-op: \<^verbatim>\<open>removePeer\<close> returns the server as it
  is, for every peer and so for one whose identifier is not in the peer map; the pass of
  the mutator takes the message from the queue, changes nothing else, raises no error and
  stays in the loop.
\<close>

theorem C9_done_peer_is_noop:
  "donePeers s = p # rest \<Longrightarrow>
   removePeer s p = s \<and>
   peerManager RecvDonePeers s = Some (Next (s\<lparr>donePeers := rest\<rparr>))"
  by (simp add: removePeer_def)

text \<open>Claim C9 on the new server, whose peer map is empty, with peer 9 reported done.\<close>

theorem C9_done_peer_is_noop_witness:
  "map_of (peers ((example_server [])\<lparr>donePeers := [Some (example_peer 9)]\<rparr>))
     (peerID (example_peer 9)) = None
   \<and> peerManager RecvDonePeers ((example_server [])\<lparr>donePeers := [Some (example_peer 9)]\<rparr>) =
     Some (Next (example_server []))"
  using C9_done_peer_is_noop
    [of "(example_server [])\<lparr>donePeers := [Some (example_peer 9)]\<rparr>" "Some (example_peer 9)" "[]"]
  by (simp add: example_server_def)

subsection \<open>The query processor on other queries\<close>

text \<open>
  Claim C10. A query that is not a connect message is taken and dropped: the whole
  state, the reply channels included, is unchanged, and the worker stays in its loop.
\<close>

theorem C10_other_query_discarded:
  "queryHandler (RecvQuery (OtherQuery q)) s = Some (Next s)"
  by simp

text \<open>Claim C10 on the new server, for a query that is a string.\<close>

theorem C10_other_query_discarded_witness:
  "queryHandler (RecvQuery (OtherQuery ''ping'')) (example_server []) =
     Some (Next (example_server []))"
  using C10_other_query_discarded [of "''ping''" "example_server []"]
  by simp

subsection \<open>Start\<close>

lemma Start_fold:
  "fold (\<lambda>l t. t\<lparr>wg := wg t + 1, goroutines := goroutines t @ [GoListener (lnAddr l)]\<rparr>) ls s =
   s\<lparr>wg := wg s + int (length ls),
     goroutines := goroutines s @ map (\<lambda>l. GoListener (lnAddr l)) ls\<rparr>"
  by (induction ls arbitrary: s) simp_all

text \<open>
  Every call adds one to the started counter, a 32-bit integer: after the first call
  it is not 0 again before call number \<open>2 ^ 32\<close>.
\<close>

lemma Start_counter: "started ((Start ^^ n) s) = started s + of_nat n"
proof (induction n)
  case 0
  show ?case by simp
next
  case (Suc n)
  have "started (Start t) = started t + 1" for t
    by (simp add: Start_def Start_fold Let_def)
  with Suc show ?case by simp
qed

text \<open>
  One call, by the counter it finds: at 0, \<^verbatim>\<open>Start\<close> launches one accept loop per
  listener, then the peer-set mutator and the query processor, and adds them to the wait
  group; at any other value it launches nothing and changes the counter only.
\<close>

lemma Start_cases:
  "(started s = 0 \<longrightarrow>
      Start s = s\<lparr>started := 1,
                  wg := wg s + int (length (listeners s)) + 2,
                  goroutines := goroutines s @ map (\<lambda>l. GoListener (lnAddr l)) (listeners s)
                                 @ [GoPeerManager, GoQueryHandler]\<rparr>)
   \<and> (started s \<noteq> 0 \<longrightarrow> Start s = s\<lparr>started := started s + 1\<rparr>)"
  by (simp add: Start_def Start_fold Let_def)

lemma of_nat_32_neq_0: "0 < n \<Longrightarrow> n < 2 ^ 32 \<Longrightarrow> (of_nat n :: 32 word) \<noteq> 0"
  by (simp add: word_of_nat_eq_0_iff nat_dvd_not_less)

lemma Start_iterate:
  assumes "started s = 0"
  shows "1 \<le> n \<Longrightarrow> n \<le> 2 ^ 32 \<Longrightarrow> (Start ^^ n) s = (Start s)\<lparr>started := of_nat n\<rparr>"
proof (induction n)
  case 0
  then show ?case by simp
next
  case (Suc n)
  show ?case
  proof (cases "n = 0")
    case True
    with assms show ?thesis using Start_cases [of s] by simp
  next
    case False
    with Suc have ih: "(Start ^^ n) s = (Start s)\<lparr>started := of_nat n\<rparr>" and n: "0 < n" "n < 2 ^ 32"
      by simp_all
    from n have "(of_nat n :: 32 word) \<noteq> 0" by (rule of_nat_32_neq_0)
    then have "Start ((Start s)\<lparr>started := of_nat n\<rparr>) = (Start s)\<lparr>started := of_nat n + 1\<rparr>"
      using Start_cases [of "(Start s)\<lparr>started := of_nat n\<rparr>"] by simp
    with ih show ?thesis by simp
  qed
qed

text \<open>
  Claim C8, as amended. On a server whose started counter is 0, the first call of
  \<^verbatim>\<open>Start\<close> launches one accept loop per listener, the peer-set mutator and the
  query processor; and after \<open>n\<close> calls, for \<open>n\<close> from 1 up to \<open>2 ^ 32 - 1\<close>, the
  next call launches nothing and changes the counter only: the state is the one the
  first call left, but for the counter.
\<close>

theorem C8_Start_once_until_wrap:
  assumes "started s = 0"
  shows "Start s = s\<lparr>started := 1,
                    wg := wg s + int (length (listeners s)) + 2,
                    goroutines := goroutines s @ map (\<lambda>l. GoListener (lnAddr l)) (listeners s)
                                   @ [GoPeerManager, GoQueryHandler]\<rparr>
       \<and> (1 \<le> n \<and> n < 2 ^ 32 \<longrightarrow>
            started ((Start ^^ n) s) \<noteq> 0 \<and>
            Start ((Start ^^ n) s) = ((Start ^^ n) s)\<lparr>started := started ((Start ^^ n) s) + 1\<rparr> \<and>
            Start ((Start ^^ n) s) = (Start s)\<lparr>started := of_nat n + 1\<rparr>)"
proof (intro conjI impI)
  show "Start s = s\<lparr>started := 1,
                    wg := wg s + int (length (listeners s)) + 2,
                    goroutines := goroutines s @ map (\<lambda>l. GoListener (lnAddr l)) (listeners s)
                                   @ [GoPeerManager, GoQueryHandler]\<rparr>"
    using assms Start_cases [of s] by simp
next
  assume n: "1 \<le> n \<and> n < 2 ^ 32"
  then have it: "(Start ^^ n) s = (Start s)\<lparr>started := of_nat n\<rparr>"
    using Start_iterate [OF assms, of n] by simp
  from n have nz: "(of_nat n :: 32 word) \<noteq> 0"
    using of_nat_32_neq_0 [of n] by simp
  show "started ((Start ^^ n) s) \<noteq> 0"
    using nz by (simp add: it)
  have st: "Start ((Start s)\<lparr>started := of_nat n\<rparr>) = (Start s)\<lparr>started := of_nat n + 1\<rparr>"
    using nz Start_cases [of "(Start s)\<lparr>started := of_nat n\<rparr>"] by simp
  show "Start ((Start ^^ n) s) = ((Start ^^ n) s)\<lparr>started := started ((Start ^^ n) s) + 1\<rparr>"
    by (simp add: it st)
  show "Start ((Start ^^ n) s) = (Start s)\<lparr>started := of_nat n + 1\<rparr>"
    by (simp add: it st)
qed

text \<open>The amended claim C8 on the new server with one listener: the first two calls.\<close>

theorem C8_Start_once_until_wrap_witness:
  "Start (example_server [\<lparr>lnAddr = '':10011'', closeResult = None, closeCalls = 0\<rparr>]) =
     (example_server [\<lparr>lnAddr = '':10011'', closeResult = None, closeCalls = 0\<rparr>])
       \<lparr>started := 1, wg := 3,
        goroutines := [GoListener '':10011'', GoPeerManager, GoQueryHandler]\<rparr>
   \<and> Start (Start (example_server [\<lparr>lnAddr = '':10011'', closeResult = None, closeCalls = 0\<rparr>])) =
     (example_server [\<lparr>lnAddr = '':10011'', closeResult = None, closeCalls = 0\<rparr>])
       \<lparr>started := 2, wg := 3,
        goroutines := [GoListener '':10011'', GoPeerManager, GoQueryHandler]\<rparr>"
proof -
  let ?s0 = "example_server [\<lparr>lnAddr = '':10011'', closeResult = None, closeCalls = 0\<rparr>]"
  have z: "started ?s0 = 0" by (simp add: example_server_def)
  note t = C8_Start_once_until_wrap [OF z, of 1]
  have first: "Start ?s0 = ?s0\<lparr>started := 1, wg := 3,
        goroutines := [GoListener '':10011'', GoPeerManager, GoQueryHandler]\<rparr>"
    using t [THEN conjunct1] by (simp add: example_server_def)
  have pre: "1 \<le> (1::nat) \<and> (1::nat) < 2 ^ 32" by simp
  note c = t [THEN conjunct2, THEN mp, OF pre]
  have "Start ((Start ^^ 1) ?s0) = (Start ?s0)\<lparr>started := of_nat 1 + 1\<rparr>"
    by (rule c [THEN conjunct2, THEN conjunct2])
  then have second: "Start (Start ?s0) = ?s0\<lparr>started := 2, wg := 3,
        goroutines := [GoListener '':10011'', GoPeerManager, GoQueryHandler]\<rparr>"
    by (simp add: first)
  from first second show ?thesis by (rule conjI)
qed

text \<open>
  Claim C8 as stated fails at call number \<open>2 ^ 32 + 1\<close>. After 4294967296 calls on
  the new server with one listener the counter has wrapped round to 0, and the next call
  of \<^verbatim>\<open>Start\<close> launches the accept loop, the mutator and the query processor a second
  time.
\<close>

theorem C8_Start_wraps_counterexample:
  "(Start ^^ 4294967296) (example_server [\<lparr>lnAddr = '':10011'', closeResult = None, closeCalls = 0\<rparr>]) =
     (example_server [\<lparr>lnAddr = '':10011'', closeResult = None, closeCalls = 0\<rparr>])
       \<lparr>started := 0, wg := 3,
        goroutines := [GoListener '':10011'', GoPeerManager, GoQueryHandler]\<rparr>
   \<and> Start ((example_server [\<lparr>lnAddr = '':10011'', closeResult = None, closeCalls = 0\<rparr>])
       \<lparr>started := 0, wg := 3,
        goroutines := [GoListener '':10011'', GoPeerManager, GoQueryHandler]\<rparr>) =
     (example_server [\<lparr>lnAddr = '':10011'', closeResult = None, closeCalls = 0\<rparr>])
       \<lparr>started := 1, wg := 6,
        goroutines := [GoListener '':10011'', GoPeerManager, GoQueryHandler,
                       GoListener '':10011'', GoPeerManager, GoQueryHandler]\<rparr>"
proof -
  let ?s0 = "example_server [\<lparr>lnAddr = '':10011'', closeResult = None, closeCalls = 0\<rparr>]"
  have z: "started ?s0 = 0" by (simp add: example_server_def)
  have first: "Start ?s0 = ?s0\<lparr>started := 1, wg := 3,
        goroutines := [GoListener '':10011'', GoPeerManager, GoQueryHandler]\<rparr>"
    using Start_cases [of ?s0] by (simp add: example_server_def)
  have w: "(of_nat 4294967296 :: 32 word) = 0" by simp
  have "(Start ^^ 4294967296) ?s0 = (Start ?s0)\<lparr>started := of_nat 4294967296\<rparr>"
    by (rule Start_iterate [OF z]) simp_all
  then have a: "(Start ^^ 4294967296) ?s0 = ?s0\<lparr>started := 0, wg := 3,
        goroutines := [GoListener '':10011'', GoPeerManager, GoQueryHandler]\<rparr>"
    unfolding first w by simp
  have b: "Start (?s0\<lparr>started := 0, wg := 3,
        goroutines := [GoListener '':10011'', GoPeerManager, GoQueryHandler]\<rparr>) =
     ?s0\<lparr>started := 1, wg := 6,
        goroutines := [GoListener '':10011'', GoPeerManager, GoQueryHandler,
                       GoListener '':10011'', GoPeerManager, GoQueryHandler]\<rparr>"
    using Start_cases [of "?s0\<lparr>started := 0, wg := 3,
        goroutines := [GoListener '':10011'', GoPeerManager, GoQueryHandler]\<rparr>"]
    by (simp add: example_server_def)
  from a b show ?thesis by (rule conjI)
qed

end
